theory Spec2Isabelle
  imports Complex_Main "HOL-Library.Word"
begin

section \<open>Python values\<close>

text \<open>
  The handler works on the values that \<^verbatim>\<open>json.loads\<close> produces. A Python \<^verbatim>\<open>str\<close> is a
  \<open>string\<close>, one \<open>char\<close> per code point (the model's strings range over the code points
  below 256). A \<^verbatim>\<open>dict\<close> is an association list in insertion order, read with \<open>map_of\<close>;
  \<^verbatim>\<open>None\<close> is \<open>JNull\<close>. A float is a finite rational or one of the three special values
  that \<^verbatim>\<open>json.loads\<close> also accepts.
\<close>

datatype pyfloat = Finite rat | PosInf | NegInf | NaN

datatype json =
    JNull
  | JBool bool
  | JInt int
  | JFloat pyfloat
  | JStr string
  | JArr "json list"
  | JObj "(string \<times> json) list"

type_synonym pydict = "(string \<times> json) list"

type_synonym bytes = "8 word list"

text \<open>Truth value testing (\<^verbatim>\<open>if x\<close>, \<^verbatim>\<open>x or y\<close>, \<^verbatim>\<open>x and y\<close>).\<close>

fun truthy :: "json \<Rightarrow> bool" where
  "truthy JNull = False"
| "truthy (JBool b) = b"
| "truthy (JInt n) = (n \<noteq> 0)"
| "truthy (JFloat (Finite q)) = (q \<noteq> 0)"
| "truthy (JFloat PosInf) = True"
| "truthy (JFloat NegInf) = True"
| "truthy (JFloat NaN) = True"
| "truthy (JStr s) = (s \<noteq> [])"
| "truthy (JArr xs) = (xs \<noteq> [])"
| "truthy (JObj d) = (d \<noteq> [])"

text \<open>\<^verbatim>\<open>type(x).__name__\<close>, as it appears in the interpreter's error messages.\<close>

fun type_name :: "json \<Rightarrow> string" where
  "type_name JNull = ''NoneType''"
| "type_name (JBool b) = ''bool''"
| "type_name (JInt n) = ''int''"
| "type_name (JFloat f) = ''float''"
| "type_name (JStr s) = ''str''"
| "type_name (JArr xs) = ''list''"
| "type_name (JObj d) = ''dict''"

text \<open>\<^verbatim>\<open>d.get(k, default)\<close>.\<close>

definition dict_get :: "pydict \<Rightarrow> string \<Rightarrow> json \<Rightarrow> json" where
  "dict_get d k dflt = (case map_of d k of None \<Rightarrow> dflt | Some v \<Rightarrow> v)"

section \<open>Exceptions\<close>

text \<open>
  The exception classes that the code names or that its libraries raise, each with its
  method resolution order up to \<^verbatim>\<open>Exception\<close>. \<^verbatim>\<open>json.JSONDecodeError\<close>, \<^verbatim>\<open>binascii.Error\<close>
  and \<^verbatim>\<open>UnicodeDecodeError\<close> derive from \<^verbatim>\<open>ValueError\<close>; \<^verbatim>\<open>RecursionError\<close> derives from
  \<^verbatim>\<open>RuntimeError\<close>. In \<^verbatim>\<open>botocore.exceptions\<close>, \<^verbatim>\<open>NoCredentialsError\<close> and
  \<^verbatim>\<open>EndpointConnectionError\<close> derive from \<^verbatim>\<open>BotoCoreError\<close>, while \<^verbatim>\<open>ClientError\<close> (the error
  responses of the service itself, such as AccessDenied or NoSuchBucket) derives from
  \<^verbatim>\<open>Exception\<close> directly. \<^verbatim>\<open>openai.OpenAIError\<close> derives from \<^verbatim>\<open>Exception\<close>.
\<close>

datatype exc_class =
    Exception
  | ValueError
  | JSONDecodeError
  | BinasciiError
  | UnicodeDecodeError
  | RuntimeError
  | RecursionError
  | AttributeError
  | TypeError
  | BotoCoreError
  | NoCredentialsError
  | EndpointConnectionError
  | ClientError
  | OpenAIError

fun mro :: "exc_class \<Rightarrow> exc_class list" where
  "mro Exception = [Exception]"
| "mro ValueError = [ValueError, Exception]"
| "mro JSONDecodeError = [JSONDecodeError, ValueError, Exception]"
| "mro BinasciiError = [BinasciiError, ValueError, Exception]"
| "mro UnicodeDecodeError = [UnicodeDecodeError, ValueError, Exception]"
| "mro RuntimeError = [RuntimeError, Exception]"
| "mro RecursionError = [RecursionError, RuntimeError, Exception]"
| "mro AttributeError = [AttributeError, Exception]"
| "mro TypeError = [TypeError, Exception]"
| "mro BotoCoreError = [BotoCoreError, Exception]"
| "mro NoCredentialsError = [NoCredentialsError, BotoCoreError, Exception]"
| "mro EndpointConnectionError = [EndpointConnectionError, BotoCoreError, Exception]"
| "mro ClientError = [ClientError, Exception]"
| "mro OpenAIError = [OpenAIError, Exception]"

text \<open>A raised exception: its class and \<^verbatim>\<open>str(exc)\<close>.\<close>

datatype py_exc = Raised exc_class string

fun exc_class_of :: "py_exc \<Rightarrow> exc_class" where
  "exc_class_of (Raised c m) = c"

fun exc_str :: "py_exc \<Rightarrow> string" where
  "exc_str (Raised c m) = m"

definition isinstance :: "py_exc \<Rightarrow> exc_class \<Rightarrow> bool" where
  "isinstance e c = List.member (mro (exc_class_of e)) c"

definition quoted :: "string \<Rightarrow> string" where
  "quoted s = CHR 0x27 # s @ [CHR 0x27]"

text \<open>The \<^verbatim>\<open>AttributeError\<close> of \<^verbatim>\<open>x.attr\<close> on a value that has no such attribute.\<close>

definition no_attribute :: "json \<Rightarrow> string \<Rightarrow> py_exc" where
  "no_attribute v a =
     Raised AttributeError (quoted (type_name v) @ '' object has no attribute '' @ quoted a)"

section \<open>Strings\<close>

text \<open>\<^verbatim>\<open>str.isspace\<close> on one code point below 256, and \<^verbatim>\<open>str.strip()\<close>.\<close>

definition is_space :: "char \<Rightarrow> bool" where
  "is_space c = List.member [9, 10, 11, 12, 13, 28, 29, 30, 31, 32, 133, 160 :: nat] (of_char c)"

definition py_strip :: "string \<Rightarrow> string" where
  "py_strip s = rev (dropWhile is_space (rev (dropWhile is_space s)))"

text \<open>\<^verbatim>\<open>str(n)\<close> for an integer: decimal digits, with a minus sign when negative.\<close>

definition digit_char :: "nat \<Rightarrow> char" where
  "digit_char d = ''0123456789'' ! d"

function str_nat :: "nat \<Rightarrow> string" where
  "str_nat n = (if n < 10 then [digit_char n] else str_nat (n div 10) @ [digit_char (n mod 10)])"
  by pat_completeness auto
termination
  by (relation "measure id") auto

declare str_nat.simps [simp del]

definition str_int :: "int \<Rightarrow> string" where
  "str_int i = (if i < 0 then CHR ''-'' # str_nat (nat (- i)) else str_nat (nat i))"

text \<open>
  \<^verbatim>\<open>os.path.basename\<close> of \<^verbatim>\<open>posixpath\<close> (the handler runs on Linux):
  \<^verbatim>\<open>i = p.rfind('/') + 1; return p[i:]\<close>.
\<close>

definition basename :: "string \<Rightarrow> string" where
  "basename p = rev (takeWhile (\<lambda>c. c \<noteq> CHR ''/'') (rev p))"

text \<open>
  \<^verbatim>\<open>"".join(items)\<close>: every item has to be a \<^verbatim>\<open>str\<close>; the index of the first one that is
  not appears in the \<^verbatim>\<open>TypeError\<close>.
\<close>

fun join_from :: "nat \<Rightarrow> json list \<Rightarrow> py_exc + string" where
  "join_from i [] = Inr []"
| "join_from i (JStr s # vs) =
     (case join_from (Suc i) vs of Inl e \<Rightarrow> Inl e | Inr t \<Rightarrow> Inr (s @ t))"
| "join_from i (v # vs) =
     Inl (Raised TypeError (''sequence item '' @ str_nat i @ '': expected str instance, ''
            @ type_name v @ '' found''))"

definition py_join :: "json list \<Rightarrow> py_exc + string" where
  "py_join vs = join_from 0 vs"

text \<open>\<^verbatim>\<open>list(x)\<close>: a list is copied, a string gives its characters, a dict its keys.\<close>

fun py_list :: "json \<Rightarrow> py_exc + json list" where
  "py_list (JArr xs) = Inr xs"
| "py_list (JStr s) = Inr (map (\<lambda>c. JStr [c]) s)"
| "py_list (JObj d) = Inr (map (\<lambda>kv. JStr (fst kv)) d)"
| "py_list v = Inl (Raised TypeError (quoted (type_name v) @ '' object is not iterable''))"

section \<open>The world outside the handler\<close>

text \<open>
  Process configuration and the libraries the code calls are parameters of the model: the
  environment variables read at import time, the standard-library functions
  (\<^verbatim>\<open>base64.b64decode\<close>, \<^verbatim>\<open>bytes.decode("utf-8")\<close>, \<^verbatim>\<open>json.loads\<close>, \<^verbatim>\<open>json.dumps\<close>,
  \<^verbatim>\<open>mimetypes.guess_type\<close>, \<^verbatim>\<open>int(time.time())\<close>), the S3 client and the OpenAI client. A
  call that can raise returns \<open>Inl\<close> of the exception.
\<close>

text \<open>
  The \<^verbatim>\<open>content\<close> attribute of a chat completion's message: absent, \<^verbatim>\<open>None\<close>, a string, or a
  list of segments. A segment is a \<^verbatim>\<open>dict\<close> or some other object (with its attributes).
\<close>

datatype part = DictPart pydict | ObjectPart pydict

datatype content = ContentAbsent | ContentNone | ContentStr string | ContentList "part list"

record env =
  S3_BUCKET :: "string option"
  OPENAI_MODEL :: string
  OPENAI_API_KEY :: "string option"
  b64decode :: "string \<Rightarrow> py_exc + bytes"
  utf8_decode :: "bytes \<Rightarrow> py_exc + string"
  json_loads :: "string \<Rightarrow> py_exc + json"
  json_dumps :: "json \<Rightarrow> string"
  guess_type :: "string \<Rightarrow> string option"
  unix_time :: int
  boto3_installed :: bool
  boto3_client :: "py_exc + unit"
  put_object :: "string \<Rightarrow> string \<Rightarrow> bytes \<Rightarrow> string \<Rightarrow> py_exc + unit"
  generate_presigned_url :: "string \<Rightarrow> string \<Rightarrow> nat \<Rightarrow> py_exc + string"
  has_responses :: bool
  responses_create :: "string \<Rightarrow> json list \<Rightarrow> nat \<Rightarrow> py_exc + string option"
  has_chat :: bool
  chat_create :: "string \<Rightarrow> json list \<Rightarrow> nat \<Rightarrow> py_exc + content list"

text \<open>
  \<open>responses_create\<close> returns the \<^verbatim>\<open>output_text\<close> of the response (\<open>None\<close> when the attribute
  is absent or \<^verbatim>\<open>None\<close>); \<open>chat_create\<close> returns, for each entry of \<^verbatim>\<open>completion.choices\<close>,
  the \<^verbatim>\<open>content\<close> of its message.

  Every call that leaves the process is recorded, in order, whether or not it succeeds.
\<close>

datatype effect =
    S3Client
  | PutObject string string bytes string
  | PresignedUrl string string nat
  | ResponsesCreate string "json list" nat
  | ChatCreate string "json list" nat

type_synonym 'a io = "(py_exc + 'a) \<times> effect list"

text \<open>Sequencing: an exception ends the computation, the effects so far are kept.\<close>

definition bind_io :: "'a io \<Rightarrow> ('a \<Rightarrow> 'b io) \<Rightarrow> 'b io" where
  "bind_io m f =
     (case m of
        (Inl e, t) \<Rightarrow> (Inl e, t)
      | (Inr x, t) \<Rightarrow> (case f x of (r, t') \<Rightarrow> (r, t @ t')))"

definition call :: "effect \<Rightarrow> py_exc + 'a \<Rightarrow> 'a io" where
  "call eff r = (r, [eff])"

definition pure_io :: "py_exc + 'a \<Rightarrow> 'a io" where
  "pure_io r = (r, [])"

definition env_truthy :: "string option \<Rightarrow> bool" where
  "env_truthy v = (case v of None \<Rightarrow> False | Some s \<Rightarrow> s \<noteq> [])"

section \<open>utils/s3_helper.py\<close>

record S3Object =
  bucket :: string
  key :: string
  presigned_url :: string

definition get_s3_client :: "env \<Rightarrow> unit io" where
  "get_s3_client env =
     (if \<not> boto3_installed env then
        pure_io (Inl (Raised RuntimeError
          (''boto3 is required to upload media. Install it with '' @ quoted ''pip3 install boto3'' @ ''.'')))
      else call S3Client (boto3_client env))"

definition guess_content_type :: "env \<Rightarrow> json \<Rightarrow> py_exc + string" where
  "guess_content_type env filename =
     (case filename of
        JStr f \<Rightarrow>
          (case guess_type env f of
             None \<Rightarrow> Inr ''application/octet-stream''
           | Some t \<Rightarrow> Inr (if t = [] then ''application/octet-stream'' else t))
      | v \<Rightarrow> Inl (Raised TypeError
                 (''expected str, bytes or os.PathLike object, not '' @ type_name v)))"

text \<open>The \<^verbatim>\<open>try\<close> block around \<^verbatim>\<open>base64.b64decode(base64_payload)\<close>.\<close>

definition decode_payload :: "env \<Rightarrow> json \<Rightarrow> py_exc + bytes" where
  "decode_payload env base64_payload =
     (case base64_payload of
        JStr s \<Rightarrow>
          (case b64decode env s of
             Inl e \<Rightarrow>
               if isinstance e ValueError \<or> isinstance e BinasciiError
               then Inl (Raised ValueError ''Invalid base64 payload provided'')
               else Inl e
           | Inr b \<Rightarrow> Inr b)
      | v \<Rightarrow> Inl (Raised TypeError
                 (''argument should be a bytes-like object or ASCII string, not ''
                    @ quoted (type_name v))))"

definition upload_media_from_base64 :: "env \<Rightarrow> string \<Rightarrow> json \<Rightarrow> json \<Rightarrow> S3Object io" where
  "upload_media_from_base64 env bkt base64_payload filename =
     bind_io (get_s3_client env) (\<lambda>s3.
     bind_io (pure_io (decode_payload env base64_payload)) (\<lambda>binary_data.
     bind_io (pure_io (guess_content_type env filename)) (\<lambda>content_type.
       (case filename of
          JStr f \<Rightarrow>
            (let timestamp = unix_time env;
                 k = ''uploads/'' @ str_int timestamp @ ''-'' @ basename f
             in bind_io (call (PutObject bkt k binary_data content_type)
                           (put_object env bkt k binary_data content_type)) (\<lambda>u.
                bind_io (call (PresignedUrl bkt k 3600)
                           (generate_presigned_url env bkt k 3600)) (\<lambda>url.
                  pure_io (Inr \<lparr>bucket = bkt, key = k, presigned_url = url\<rparr>))))
        | v \<Rightarrow> pure_io (Inl (Raised TypeError
                   (''expected str, bytes or os.PathLike object, not '' @ type_name v)))))))"

section \<open>lambda_function.py\<close>

record DiagnosticRequest =
  description :: string
  media_base64 :: json
  media_filename :: json

record DiagnosticResponse =
  summary :: json
  potential_causes :: "json list"
  safety_checks :: "json list"
  recommended_actions :: "json list"

text \<open>The \<^verbatim>\<open>try\<close> block of \<^verbatim>\<open>DiagnosticRequest.from_event\<close>: the parsed body.\<close>

definition parse_body :: "env \<Rightarrow> pydict \<Rightarrow> py_exc + json" where
  "parse_body env event =
     (let b = dict_get event ''body'' JNull;
          body = (if truthy b then b else JStr ''{}'');
          decoded =
            (if truthy (dict_get event ''isBase64Encoded'' JNull) then
               (case body of
                  JStr s \<Rightarrow>
                    (case b64decode env s of
                       Inl e \<Rightarrow> Inl e
                     | Inr bs \<Rightarrow>
                         (case utf8_decode env bs of
                            Inl e \<Rightarrow> Inl e
                          | Inr t \<Rightarrow> Inr (JStr t)))
                | v \<Rightarrow> Inl (Raised TypeError
                           (''argument should be a bytes-like object or ASCII string, not ''
                              @ quoted (type_name v))))
             else Inr body);
          payload =
            (case decoded of
               Inl e \<Rightarrow> Inl e
             | Inr (JStr s) \<Rightarrow> json_loads env s
             | Inr v \<Rightarrow> Inl (Raised TypeError
                          (''the JSON object must be str, bytes or bytearray, not ''
                             @ type_name v)))
      in case payload of
           Inl e \<Rightarrow>
             if isinstance e ValueError \<or> isinstance e JSONDecodeError
             then Inl (Raised ValueError ''Request body is not valid JSON'')
             else Inl e
         | Inr p \<Rightarrow> Inr p)"

definition from_event :: "env \<Rightarrow> pydict \<Rightarrow> py_exc + DiagnosticRequest" where
  "from_event env event =
     (case parse_body env event of
        Inl e \<Rightarrow> Inl e
      | Inr (JObj payload) \<Rightarrow>
          (case dict_get payload ''description'' (JStr []) of
             JStr s \<Rightarrow>
               (let d = py_strip s
                in if d = [] then Inl (Raised ValueError ''Description is required'')
                   else Inr \<lparr>description = d,
                             media_base64 = dict_get payload ''media'' JNull,
                             media_filename = dict_get payload ''filename'' JNull\<rparr>)
           | v \<Rightarrow> Inl (no_attribute v ''strip''))
      | Inr v \<Rightarrow> Inl (no_attribute v ''get''))"

definition as_dict :: "DiagnosticResponse \<Rightarrow> json" where
  "as_dict r =
     JObj [(''summary'', summary r),
           (''potential_causes'', JArr (potential_causes r)),
           (''safety_checks'', JArr (safety_checks r)),
           (''recommended_actions'', JArr (recommended_actions r))]"

definition system_instruction :: string where
  "system_instruction =
     ''You are an experienced automotive mechanic. Analyse the user'' @ [CHR 0x27] @ ''s ''
     @ ''description and the provided media to produce a concise diagnostic ''
     @ ''report.''"

definition build_messages :: "DiagnosticRequest \<Rightarrow> S3Object option \<Rightarrow> json list" where
  "build_messages request media_object =
     (let user_content =
            [JObj [(''type'', JStr ''text''),
                   (''text'', JStr (''User description: '' @ description request))]]
            @ (case media_object of
                 None \<Rightarrow> []
               | Some m \<Rightarrow>
                   [JObj [(''type'', JStr ''input_image''),
                          (''image_url'', JObj [(''url'', JStr (presigned_url m))])]])
      in [JObj [(''role'', JStr ''system''), (''content'', JStr system_instruction)],
          JObj [(''role'', JStr ''user''), (''content'', JArr user_content)]])"

text \<open>
  \<^verbatim>\<open>_invoke_openai\<close>, lines 148 to 154: the text of a chat completion (the fallback path).
  \<^verbatim>\<open>text\<close> keeps its initial value \<^verbatim>\<open>""\<close> when there is no choice.
\<close>

fun part_texts :: "part list \<Rightarrow> json list" where
  "part_texts [] = []"
| "part_texts (DictPart d # ps) = dict_get d ''text'' (JStr []) # part_texts ps"
| "part_texts (ObjectPart a # ps) = part_texts ps"

definition chat_text :: "content list \<Rightarrow> py_exc + string" where
  "chat_text choices =
     (case choices of
        [] \<Rightarrow> Inr []
      | c # rest \<Rightarrow>
          (case c of
             ContentList parts \<Rightarrow> py_join (part_texts parts)
           | ContentStr s \<Rightarrow> Inr s
           | ContentNone \<Rightarrow> Inr []
           | ContentAbsent \<Rightarrow> Inr []))"

text \<open>\<^verbatim>\<open>_invoke_openai\<close>, lines 125 to 154: the client, the call and the extracted text.\<close>

definition model_text :: "env \<Rightarrow> json list \<Rightarrow> string io" where
  "model_text env messages =
     (if \<not> env_truthy (OPENAI_API_KEY env) then
        pure_io (Inl (Raised RuntimeError ''OPENAI_API_KEY environment variable is not set''))
      else if has_responses env then
        bind_io (call (ResponsesCreate (OPENAI_MODEL env) messages 800)
                   (responses_create env (OPENAI_MODEL env) messages 800)) (\<lambda>output_text.
          pure_io (Inr (case output_text of None \<Rightarrow> [] | Some t \<Rightarrow> t)))
      else if \<not> has_chat env then
        pure_io (Inl (Raised RuntimeError
          ''OpenAI client does not support responses or chat completions APIs''))
      else
        bind_io (call (ChatCreate (OPENAI_MODEL env) messages 800)
                   (chat_create env (OPENAI_MODEL env) messages 800)) (\<lambda>choices.
          pure_io (chat_text choices)))"

text \<open>
  \<^verbatim>\<open>_invoke_openai\<close>, lines 160 to 175: the reply read as a JSON document, with the plain
  text summary as the fallback when \<^verbatim>\<open>json.loads\<close> raises \<^verbatim>\<open>JSONDecodeError\<close>.
\<close>

definition normalize_response :: "env \<Rightarrow> string \<Rightarrow> py_exc + DiagnosticResponse" where
  "normalize_response env text =
     (case json_loads env text of
        Inl e \<Rightarrow>
          if isinstance e JSONDecodeError
          then Inr \<lparr>summary = JStr text, potential_causes = [], safety_checks = [],
                    recommended_actions = []\<rparr>
          else Inl e
      | Inr (JObj parsed) \<Rightarrow>
          (case py_list (dict_get parsed ''potential_causes'' (JArr [])) of
             Inl e \<Rightarrow> Inl e
           | Inr pc \<Rightarrow>
               (case py_list (dict_get parsed ''safety_checks'' (JArr [])) of
                  Inl e \<Rightarrow> Inl e
                | Inr sc \<Rightarrow>
                    (case py_list (dict_get parsed ''recommended_actions'' (JArr [])) of
                       Inl e \<Rightarrow> Inl e
                     | Inr ra \<Rightarrow>
                         Inr \<lparr>summary = dict_get parsed ''summary'' (JStr text),
                              potential_causes = pc, safety_checks = sc,
                              recommended_actions = ra\<rparr>)))
      | Inr v \<Rightarrow> Inl (no_attribute v ''get''))"

text \<open>\<^verbatim>\<open>_invoke_openai\<close>, lines 156 to 175: what happens to the extracted text.\<close>

definition finish_text :: "env \<Rightarrow> string \<Rightarrow> py_exc + DiagnosticResponse" where
  "finish_text env raw =
     (let text = py_strip raw
      in if text = [] then Inl (Raised RuntimeError ''OpenAI returned an empty response'')
         else normalize_response env text)"

definition invoke_openai :: "env \<Rightarrow> json list \<Rightarrow> DiagnosticResponse io" where
  "invoke_openai env messages =
     bind_io (model_text env messages) (\<lambda>raw. pure_io (finish_text env raw))"

record api_response =
  statusCode :: int
  headers :: "(string \<times> string) list"
  body :: string

definition json_headers :: "(string \<times> string) list" where
  "json_headers = [(''Content-Type'', ''application/json'')]"

text \<open>Lines 186 to 194: the upload, when the request carries media.\<close>

definition media_present :: "DiagnosticRequest \<Rightarrow> bool" where
  "media_present request = (truthy (media_base64 request) \<and> truthy (media_filename request))"

definition upload_step :: "env \<Rightarrow> DiagnosticRequest \<Rightarrow> S3Object option io" where
  "upload_step env request =
     (if media_present request then
        (case S3_BUCKET env of
           None \<Rightarrow> pure_io (Inl (Raised RuntimeError ''S3_BUCKET environment variable is not set''))
         | Some b \<Rightarrow>
             if b = [] then
               pure_io (Inl (Raised RuntimeError ''S3_BUCKET environment variable is not set''))
             else
               bind_io (upload_media_from_base64 env b (media_base64 request)
                          (media_filename request))
                 (\<lambda>obj. pure_io (Inr (Some obj))))
      else pure_io (Inr None))"

text \<open>The \<^verbatim>\<open>try\<close> block of \<^verbatim>\<open>lambda_handler\<close>.\<close>

definition handler_body :: "env \<Rightarrow> pydict \<Rightarrow> api_response io" where
  "handler_body env event =
     bind_io (pure_io (from_event env event)) (\<lambda>request.
     bind_io (upload_step env request) (\<lambda>media_object.
     bind_io (invoke_openai env (build_messages request media_object)) (\<lambda>response.
       pure_io (Inr \<lparr>statusCode = 200, headers = json_headers,
                     body = json_dumps env (as_dict response)\<rparr>))))"

text \<open>
  The \<^verbatim>\<open>except (ValueError, RuntimeError, botocore.exceptions.BotoCoreError)\<close> clause.
\<close>

definition caught :: "py_exc \<Rightarrow> bool" where
  "caught e = (isinstance e ValueError \<or> isinstance e RuntimeError \<or> isinstance e BotoCoreError)"

definition error_response :: "env \<Rightarrow> py_exc \<Rightarrow> api_response" where
  "error_response env e =
     \<lparr>statusCode = 400, headers = json_headers,
      body = json_dumps env (JObj [(''error'', JStr (exc_str e))])\<rparr>"

text \<open>
  \<^verbatim>\<open>lambda_handler\<close>: \<open>Inr\<close> is the returned envelope, \<open>Inl\<close> an exception that leaves the
  handler and reaches the host runtime.
\<close>

definition lambda_handler :: "env \<Rightarrow> pydict \<Rightarrow> api_response io" where
  "lambda_handler env event =
     (case handler_body env event of
        (Inr r, t) \<Rightarrow> (Inr r, t)
      | (Inl e, t) \<Rightarrow> if caught e then (Inr (error_response env e), t) else (Inl e, t))"

section \<open>The extraction as C8 words it\<close>

text \<open>
  For comparison with \<open>chat_text\<close>: a segment is text-typed when its \<^verbatim>\<open>type\<close> is
  \<^verbatim>\<open>"text"\<close>, and the extracted text is the concatenation, in order, of the text of the
  text-typed segments only.
\<close>

fun part_fields :: "part \<Rightarrow> pydict" where
  "part_fields (DictPart d) = d"
| "part_fields (ObjectPart a) = a"

fun is_dict :: "part \<Rightarrow> bool" where
  "is_dict (DictPart d) = True"
| "is_dict (ObjectPart a) = False"

definition text_typed :: "part \<Rightarrow> bool" where
  "text_typed p = (dict_get (part_fields p) ''type'' JNull = JStr ''text'')"

definition segment_text :: "part \<Rightarrow> string" where
  "segment_text p = (case dict_get (part_fields p) ''text'' (JStr []) of JStr s \<Rightarrow> s | _ \<Rightarrow> [])"

definition text_typed_concat :: "part list \<Rightarrow> string" where
  "text_typed_concat parts = concat (map segment_text (filter text_typed parts))"

section \<open>A sample environment\<close>

text \<open>
  One concrete world, at which the theorems below are instantiated. Its library functions
  agree with Python's on the inputs used in this file: \<open>sample_loads\<close> knows the JSON
  documents of \<open>sample_documents\<close> and rejects the plain prose used besides them,
  \<open>sample_b64decode\<close> knows one payload, \<open>sample_utf8_decode\<close> decodes ASCII, and
  \<open>sample_dumps\<close> writes a value the way \<^verbatim>\<open>json.dumps\<close> does with its default separators and
  \<^verbatim>\<open>ensure_ascii\<close> (a finite float, of which the examples have none, is written by its
  integer part).
\<close>

definition sample_documents :: "(string \<times> json) list" where
  \<open>sample_documents =
     [(''{}'', JObj []),
      (''[]'', JArr []),
      (''{"description": "Engine knocks at idle"}'',
         JObj [(''description'', JStr ''Engine knocks at idle'')]),
      (''{"description": "Engine knocks at idle", "media": "aGVsbG8=", "filename": "a/b/photo.png"}'',
         JObj [(''description'', JStr ''Engine knocks at idle''),
               (''media'', JStr ''aGVsbG8=''),
               (''filename'', JStr ''a/b/photo.png'')]),
      (''{"description": "   "}'', JObj [(''description'', JStr ''   '')]),
      (''{"description": 5}'', JObj [(''description'', JInt 5)]),
      (''{"summary":"S","potential_causes":["A"],"safety_checks":[],"recommended_actions":["B"]}'',
         JObj [(''summary'', JStr ''S''),
               (''potential_causes'', JArr [JStr ''A'']),
               (''safety_checks'', JArr []),
               (''recommended_actions'', JArr [JStr ''B''])]),
      (''{"summary": ""}'', JObj [(''summary'', JStr [])])]\<close>

definition sample_loads :: "string \<Rightarrow> py_exc + json" where
  "sample_loads s =
     (case map_of sample_documents s of
        Some v \<Rightarrow> Inr v
      | None \<Rightarrow> Inl (Raised JSONDecodeError ''Expecting value: line 1 column 1 (char 0)''))"

definition sample_b64decode :: "string \<Rightarrow> py_exc + bytes" where
  "sample_b64decode s =
     (if s = ''aGVsbG8='' then Inr [104, 101, 108, 108, 111]
      else Inl (Raised BinasciiError ''Incorrect padding''))"

definition sample_utf8_decode :: "bytes \<Rightarrow> py_exc + string" where
  "sample_utf8_decode bs =
     (if list_all (\<lambda>b. unat b < 128) bs then Inr (map (\<lambda>b. char_of (unat b)) bs)
      else Inl (Raised UnicodeDecodeError ''invalid start byte''))"

definition sample_guess_type :: "string \<Rightarrow> string option" where
  "sample_guess_type f =
     map_of [(''png'', ''image/png''), (''jpg'', ''image/jpeg''), (''mp4'', ''video/mp4'')]
       (rev (takeWhile (\<lambda>c. c \<noteq> CHR ''.'') (rev f)))"

definition hex_digit :: "nat \<Rightarrow> char" where
  "hex_digit d = ''0123456789abcdef'' ! d"

definition escape_char :: "char \<Rightarrow> string" where
  "escape_char c =
     (let n = (of_char c :: nat)
      in if n = 34 then [CHR 0x5C, CHR 0x22]
         else if n = 92 then [CHR 0x5C, CHR 0x5C]
         else if n = 10 then [CHR 0x5C, CHR ''n'']
         else if n = 13 then [CHR 0x5C, CHR ''r'']
         else if n = 9 then [CHR 0x5C, CHR ''t'']
         else if n = 8 then [CHR 0x5C, CHR ''b'']
         else if n = 12 then [CHR 0x5C, CHR ''f'']
         else if 32 \<le> n \<and> n < 127 then [c]
         else [CHR 0x5C, CHR ''u'', CHR ''0'', CHR ''0'', hex_digit (n div 16),
               hex_digit (n mod 16)])"

definition dumps_str :: "string \<Rightarrow> string" where
  "dumps_str s = CHR 0x22 # concat (map escape_char s) @ [CHR 0x22]"

fun sample_dumps :: "json \<Rightarrow> string"
  and dumps_items :: "json list \<Rightarrow> string"
  and dumps_pairs :: "(string \<times> json) list \<Rightarrow> string" where
  "sample_dumps JNull = ''null''"
| "sample_dumps (JBool b) = (if b then ''true'' else ''false'')"
| "sample_dumps (JInt n) = str_int n"
| "sample_dumps (JFloat f) =
     (case f of
        NaN \<Rightarrow> ''NaN''
      | PosInf \<Rightarrow> ''Infinity''
      | NegInf \<Rightarrow> ''-Infinity''
      | Finite q \<Rightarrow> str_int \<lfloor>q\<rfloor> @ ''.0'')"
| "sample_dumps (JStr s) = dumps_str s"
| "sample_dumps (JArr xs) = ''['' @ dumps_items xs @ '']''"
| "sample_dumps (JObj d) = ''{'' @ dumps_pairs d @ ''}''"
| "dumps_items [] = []"
| "dumps_items [x] = sample_dumps x"
| "dumps_items (x # y # ys) = sample_dumps x @ '', '' @ dumps_items (y # ys)"
| "dumps_pairs [] = []"
| "dumps_pairs [(k, v)] = dumps_str k @ '': '' @ sample_dumps v"
| "dumps_pairs ((k, v) # p # ps) =
     dumps_str k @ '': '' @ sample_dumps v @ '', '' @ dumps_pairs (p # ps)"

definition sample_env :: env where
  "sample_env =
     \<lparr>S3_BUCKET = Some ''mechanic-media'',
      OPENAI_MODEL = ''gpt-4o-mini'',
      OPENAI_API_KEY = Some ''sk-sample'',
      b64decode = sample_b64decode,
      utf8_decode = sample_utf8_decode,
      json_loads = sample_loads,
      json_dumps = sample_dumps,
      guess_type = sample_guess_type,
      unix_time = 1700000000,
      boto3_installed = True,
      boto3_client = Inr (),
      put_object = (\<lambda>b k d c. Inr ()),
      generate_presigned_url =
        (\<lambda>b k ttl. Inr (''https://'' @ b @ ''.s3.amazonaws.com/'' @ k @ ''?X-Amz-Expires=3600'')),
      has_responses = True,
      responses_create = (\<lambda>m msgs n. Inr (Some ''Check the battery terminals.'')),
      has_chat = True,
      chat_create = (\<lambda>m msgs n. Inr [ContentStr ''Check the battery terminals.''])\<rparr>"

text \<open>An API Gateway event with the given body and no \<^verbatim>\<open>isBase64Encoded\<close> flag.\<close>

definition event_with_body :: "string \<Rightarrow> pydict" where
  "event_with_body b = [(''body'', JStr b)]"

section \<open>Running the model\<close>

lemmas run_defs =
  lambda_handler_def handler_body_def bind_io_def pure_io_def call_def from_event_def
  parse_body_def dict_get_def upload_step_def media_present_def upload_media_from_base64_def
  get_s3_client_def decode_payload_def guess_content_type_def invoke_openai_def model_text_def
  finish_text_def normalize_response_def chat_text_def py_join_def caught_def isinstance_def
  error_response_def env_truthy_def no_attribute_def quoted_def as_dict_def json_headers_def
  py_strip_def is_space_def basename_def build_messages_def

lemmas sample_defs =
  sample_env_def sample_loads_def sample_documents_def sample_b64decode_def
  sample_utf8_decode_def sample_guess_type_def event_with_body_def

lemma bind_io_Inl: "bind_io (Inl e, t) f = (Inl e, t)"
  by (simp add: bind_io_def)

lemma bind_io_Inr: "bind_io (Inr x, t) f = (fst (f x), t @ snd (f x))"
  by (simp add: bind_io_def split: prod.splits)

lemma bind_io_pure_Inl: "bind_io (pure_io (Inl e)) f = (Inl e, [])"
  by (simp add: bind_io_def pure_io_def)

lemma bind_io_pure_Inr: "bind_io (pure_io (Inr x)) f = f x"
  by (simp add: bind_io_def pure_io_def split: prod.splits)

lemma bind_io_success:
  assumes "bind_io m f = (Inr y, t)"
  shows "\<exists>x t1 t2. m = (Inr x, t1) \<and> f x = (Inr y, t2) \<and> t = t1 @ t2"
  using assms by (cases m; cases "fst m") (auto simp: bind_io_def split: prod.splits)

text \<open>What \<^verbatim>\<open>os.path.basename\<close> returns: the part after the last separator.\<close>

lemma basename_no_separator: "CHR ''/'' \<notin> set (basename p)"
proof -
  have "\<forall>c \<in> set (takeWhile (\<lambda>c. c \<noteq> CHR ''/'') (rev p)). c \<noteq> CHR ''/''"
    by (auto dest: set_takeWhileD)
  then show ?thesis by (auto simp: basename_def)
qed

lemma basename_split:
  "\<exists>dir. p = dir @ basename p \<and> (dir = [] \<or> last dir = CHR ''/'')"
proof -
  let ?P = "\<lambda>c. c \<noteq> CHR ''/''"
  let ?dir = "rev (dropWhile ?P (rev p))"
  have "rev (takeWhile ?P (rev p) @ dropWhile ?P (rev p)) = p"
    by (simp only: takeWhile_dropWhile_id rev_rev_ident)
  then have "?dir @ rev (takeWhile ?P (rev p)) = p"
    by (simp only: rev_append)
  then have split: "p = ?dir @ basename p"
    by (simp only: basename_def)
  have "?dir = [] \<or> last ?dir = CHR ''/''"
  proof (cases "dropWhile ?P (rev p)")
    case Nil
    then show ?thesis by simp
  next
    case (Cons c cs)
    then have "\<not> ?P (hd (dropWhile ?P (rev p)))" using hd_dropWhile[of ?P "rev p"] by simp
    with Cons show ?thesis by simp
  qed
  with split show ?thesis by blast
qed

text \<open>A successful upload: the only path through \<^verbatim>\<open>upload_media_from_base64\<close> that returns.\<close>

lemma upload_success:
  assumes "upload_media_from_base64 env bkt payload filename = (Inr obj, t)"
  shows "\<exists>f data ctype url. filename = JStr f
           \<and> obj = \<lparr>bucket = bkt, key = ''uploads/'' @ str_int (unix_time env) @ ''-'' @ basename f,
                    presigned_url = url\<rparr>
           \<and> t = [S3Client,
                  PutObject bkt (''uploads/'' @ str_int (unix_time env) @ ''-'' @ basename f) data ctype,
                  PresignedUrl bkt (''uploads/'' @ str_int (unix_time env) @ ''-'' @ basename f) 3600]"
  using assms
  by (auto simp: upload_media_from_base64_def get_s3_client_def bind_io_def pure_io_def call_def Let_def
      split: if_splits sum.splits json.splits prod.splits)


section \<open>The object key of an upload (C2)\<close>

text \<open>
  C2. Whenever \<^verbatim>\<open>upload_media_from_base64\<close> returns, the filename is a string and the key of
  the stored object is \<^verbatim>\<open>"uploads/" + str(T) + "-" + basename(filename)\<close>, where \<open>T\<close> is the
  Unix time of the call. The base name contains no separator and is what follows the last
  separator of the filename, so every directory component is gone; for
  \<^verbatim>\<open>"a/b/photo.png"\<close> the key is \<^verbatim>\<open>"uploads/T-photo.png"\<close>. The object is written and
  presigned under that same key.
\<close>

theorem C2_object_key:
  assumes "upload_media_from_base64 env bkt payload filename = (Inr obj, t)"
  shows "\<exists>f data ctype.
           filename = JStr f
           \<and> key obj = ''uploads/'' @ str_int (unix_time env) @ ''-'' @ basename f
           \<and> CHR ''/'' \<notin> set (basename f)
           \<and> (\<exists>dir. f = dir @ basename f \<and> (dir = [] \<or> last dir = CHR ''/''))
           \<and> (f = ''a/b/photo.png'' \<longrightarrow>
                key obj = ''uploads/'' @ str_int (unix_time env) @ ''-photo.png'')
           \<and> t = [S3Client, PutObject bkt (key obj) data ctype, PresignedUrl bkt (key obj) 3600]"
proof -
  from upload_success[OF assms] obtain f data ctype url where
    name: "filename = JStr f"
    and obj: "obj = \<lparr>bucket = bkt,
                     key = ''uploads/'' @ str_int (unix_time env) @ ''-'' @ basename f,
                     presigned_url = url\<rparr>"
    and t: "t = [S3Client,
                 PutObject bkt (''uploads/'' @ str_int (unix_time env) @ ''-'' @ basename f) data ctype,
                 PresignedUrl bkt (''uploads/'' @ str_int (unix_time env) @ ''-'' @ basename f) 3600]"
    by blast
  have k: "key obj = ''uploads/'' @ str_int (unix_time env) @ ''-'' @ basename f"
    by (simp only: obj S3Object.simps)
  have photo: "basename ''a/b/photo.png'' = ''photo.png''"
    by (simp add: basename_def)
  have ex: "f = ''a/b/photo.png'' \<longrightarrow>
              key obj = ''uploads/'' @ str_int (unix_time env) @ ''-photo.png''"
  proof
    assume "f = ''a/b/photo.png''"
    with k photo show "key obj = ''uploads/'' @ str_int (unix_time env) @ ''-photo.png''"
      by simp
  qed
  have tr: "t = [S3Client, PutObject bkt (key obj) data ctype, PresignedUrl bkt (key obj) 3600]"
    by (simp only: t k)
  show ?thesis
    apply (rule exI[of _ f])
    apply (rule exI[of _ data])
    apply (rule exI[of _ ctype])
    apply (intro conjI name k basename_no_separator basename_split ex tr)
    done
qed

lemma sample_time_digits: "str_int 1700000000 = ''1700000000''"
  by (simp add: str_int_def str_nat.simps digit_char_def)

lemma sample_upload:
  "upload_media_from_base64 sample_env ''mechanic-media'' (JStr ''aGVsbG8='') (JStr ''a/b/photo.png'')
     = (Inr \<lparr>bucket = ''mechanic-media'', key = ''uploads/1700000000-photo.png'',
             presigned_url = ''https://mechanic-media.s3.amazonaws.com/uploads/1700000000-photo.png?X-Amz-Expires=3600''\<rparr>,
        [S3Client,
         PutObject ''mechanic-media'' ''uploads/1700000000-photo.png'' [104, 101, 108, 108, 111] ''image/png'',
         PresignedUrl ''mechanic-media'' ''uploads/1700000000-photo.png'' 3600])"
  by (simp add: run_defs sample_defs Let_def sample_time_digits)

theorem C2_object_key_witness:
  "\<exists>obj t.
     upload_media_from_base64 sample_env ''mechanic-media'' (JStr ''aGVsbG8='') (JStr ''a/b/photo.png'')
       = (Inr obj, t)
     \<and> key obj = ''uploads/1700000000-photo.png''
     \<and> (\<exists>f data ctype.
           JStr ''a/b/photo.png'' = JStr f
           \<and> key obj = ''uploads/'' @ str_int (unix_time sample_env) @ ''-'' @ basename f
           \<and> CHR ''/'' \<notin> set (basename f)
           \<and> (\<exists>dir. f = dir @ basename f \<and> (dir = [] \<or> last dir = CHR ''/''))
           \<and> (f = ''a/b/photo.png'' \<longrightarrow>
                key obj = ''uploads/'' @ str_int (unix_time sample_env) @ ''-photo.png'')
           \<and> t = [S3Client, PutObject ''mechanic-media'' (key obj) data ctype,
                   PresignedUrl ''mechanic-media'' (key obj) 3600])"
proof -
  let ?obj = "\<lparr>bucket = ''mechanic-media'', key = ''uploads/1700000000-photo.png'',
             presigned_url = ''https://mechanic-media.s3.amazonaws.com/uploads/1700000000-photo.png?X-Amz-Expires=3600''\<rparr>"
  have k: "key ?obj = ''uploads/1700000000-photo.png''"
    by simp
  show ?thesis
    apply (rule exI[of _ ?obj])
    apply (rule exI)
    apply (intro conjI)
      apply (rule sample_upload)
     apply (rule k)
    apply (rule C2_object_key[OF sample_upload])
    done
qed

section \<open>The conversation (C6)\<close>

text \<open>
  C6. \<^verbatim>\<open>_build_messages\<close> returns exactly two entries, the fixed system instruction first and
  one user entry second. The user entry's content starts with the text segment
  \<^verbatim>\<open>"User description: " + description\<close>; without stored media that is all of it, and with
  stored media one image segment follows that points at the presigned URL. The result is a
  function of the request and the stored media alone.
\<close>

theorem C6_build_messages:
  "length (build_messages request media_object) = 2
   \<and> hd (build_messages request media_object)
       = JObj [(''role'', JStr ''system''), (''content'', JStr system_instruction)]
   \<and> build_messages request None
       = [JObj [(''role'', JStr ''system''), (''content'', JStr system_instruction)],
          JObj [(''role'', JStr ''user''),
                (''content'',
                 JArr [JObj [(''type'', JStr ''text''),
                             (''text'', JStr (''User description: '' @ description request))]])]]
   \<and> build_messages request (Some stored)
       = [JObj [(''role'', JStr ''system''), (''content'', JStr system_instruction)],
          JObj [(''role'', JStr ''user''),
                (''content'',
                 JArr [JObj [(''type'', JStr ''text''),
                             (''text'', JStr (''User description: '' @ description request))],
                       JObj [(''type'', JStr ''input_image''),
                             (''image_url'', JObj [(''url'', JStr (presigned_url stored))])]])]]"
  by (simp add: build_messages_def)

section \<open>Request normalisation (C4, C10)\<close>

text \<open>\<^verbatim>\<open>strip()\<close> leaves no whitespace at either end, so stripping twice changes nothing.\<close>

lemma py_strip_ends:
  assumes "py_strip s \<noteq> []"
  shows "\<not> is_space (hd (py_strip s))" and "\<not> is_space (last (py_strip s))"
proof -
  let ?u = "dropWhile is_space s"
  let ?v = "dropWhile is_space (rev ?u)"
  have t: "py_strip s = rev ?v" by (simp add: py_strip_def)
  from assms t have v: "?v \<noteq> []" by simp
  have u: "?u \<noteq> []"
  proof
    assume e: "?u = []"
    have "?v = []" unfolding e by simp
    with v show False by contradiction
  qed
  have "\<not> is_space (hd ?v)" using v by (rule hd_dropWhile)
  then show "\<not> is_space (last (py_strip s))" using v t by (simp add: last_rev)
  have "rev ?u = takeWhile is_space (rev ?u) @ ?v" by simp
  then have "last (rev ?u) = last ?v" using v by (metis last_appendR)
  then have "last ?v = hd ?u" using u by (simp add: last_rev)
  moreover have "\<not> is_space (hd ?u)" using u by (rule hd_dropWhile)
  ultimately show "\<not> is_space (hd (py_strip s))" using v t by (simp add: hd_rev)
qed

lemma dropWhile_keep: "xs = [] \<or> \<not> P (hd xs) \<Longrightarrow> dropWhile P xs = xs"
  by (cases xs) auto

lemma py_strip_idem: "py_strip (py_strip s) = py_strip s"
proof (cases "py_strip s = []")
  case True
  show ?thesis unfolding True by (simp add: py_strip_def)
next
  case False
  let ?t = "py_strip s"
  from py_strip_ends[OF False] have h: "\<not> is_space (hd ?t)" and l: "\<not> is_space (last ?t)"
    by simp_all
  have a: "dropWhile is_space ?t = ?t"
    using h by (intro dropWhile_keep) simp
  have "hd (rev ?t) = last ?t" using False by (simp add: hd_rev)
  with l have "\<not> is_space (hd (rev ?t))" by simp
  then have b: "dropWhile is_space (rev ?t) = rev ?t"
    by (intro dropWhile_keep) simp
  have "py_strip ?t = rev (dropWhile is_space (rev (dropWhile is_space ?t)))"
    by (simp only: py_strip_def)
  also have "\<dots> = ?t" by (simp only: a b rev_rev_ident)
  finally show ?thesis .
qed

text \<open>What the handler does with an exception of \<^verbatim>\<open>from_event\<close>.\<close>

lemma handler_request_error:
  assumes "from_event env event = Inl e"
  shows "lambda_handler env event =
           (if caught e then (Inr (error_response env e), []) else (Inl e, []))"
  using assms by (simp add: lambda_handler_def handler_body_def bind_io_def pure_io_def)

lemma from_event_not_object:
  assumes "parse_body env event = Inr v" and "\<forall>d. v \<noteq> JObj d"
  shows "from_event env event = Inl (no_attribute v ''get'')"
  using assms by (cases v) (simp_all add: from_event_def)

lemma from_event_not_string:
  assumes "parse_body env event = Inr (JObj d)" and "map_of d ''description'' = Some w"
    and "\<forall>s. w \<noteq> JStr s"
  shows "from_event env event = Inl (no_attribute w ''strip'')"
  using assms by (cases w) (simp_all add: from_event_def dict_get_def)

lemma attribute_error_not_caught:
  "exc_class_of (no_attribute v a) = AttributeError" "\<not> caught (no_attribute v a)"
  by (simp_all add: no_attribute_def caught_def isinstance_def)

text \<open>
  C10. When the body parses to a JSON value that is not an object, \<^verbatim>\<open>payload.get\<close> raises
  \<^verbatim>\<open>AttributeError\<close>; when it parses to an object whose \<^verbatim>\<open>description\<close> is present and not
  a string, \<^verbatim>\<open>.strip()\<close> raises \<^verbatim>\<open>AttributeError\<close>. That class is not in the handler's
  \<^verbatim>\<open>except\<close> clause, so the exception leaves the handler: no envelope is returned and
  nothing outside the process has been called.
\<close>

theorem C10_attribute_error_propagates:
  "(parse_body env event = Inr v \<and> (\<forall>d. v \<noteq> JObj d) \<longrightarrow>
      lambda_handler env event = (Inl (no_attribute v ''get''), []))
   \<and> (parse_body env event = Inr (JObj d) \<and> map_of d ''description'' = Some w
        \<and> (\<forall>s. w \<noteq> JStr s) \<longrightarrow>
      lambda_handler env event = (Inl (no_attribute w ''strip''), []))
   \<and> exc_class_of (no_attribute v a) = AttributeError
   \<and> \<not> caught (no_attribute v a)"
proof (intro conjI impI)
  assume "parse_body env event = Inr v \<and> (\<forall>d. v \<noteq> JObj d)"
  then have "from_event env event = Inl (no_attribute v ''get'')"
    by (intro from_event_not_object) simp_all
  then show "lambda_handler env event = (Inl (no_attribute v ''get''), [])"
    by (simp add: handler_request_error attribute_error_not_caught)
next
  assume "parse_body env event = Inr (JObj d) \<and> map_of d ''description'' = Some w
        \<and> (\<forall>s. w \<noteq> JStr s)"
  then have "from_event env event = Inl (no_attribute w ''strip'')"
    by (intro from_event_not_string[of env event d w]) simp_all
  then show "lambda_handler env event = (Inl (no_attribute w ''strip''), [])"
    by (simp add: handler_request_error attribute_error_not_caught)
qed (rule attribute_error_not_caught)+

lemma sample_parse:
  \<open>map_of sample_documents s = Some v \<Longrightarrow> s \<noteq> [] \<Longrightarrow>
     parse_body sample_env (event_with_body s) = Inr v\<close>
  by (simp add: parse_body_def event_with_body_def dict_get_def sample_env_def sample_loads_def
      Let_def split: json.splits)

lemma sample_array: \<open>map_of sample_documents ''[]'' = Some (JArr [])\<close>
  by (simp add: sample_documents_def)

lemma sample_number_description:
  \<open>map_of sample_documents ''{"description": 5}'' = Some (JObj [(''description'', JInt 5)])\<close>
  by (simp add: sample_documents_def)

theorem C10_attribute_error_propagates_witness:
  \<open>lambda_handler sample_env (event_with_body ''{"description": 5}'')
      = (Inl (Raised AttributeError (quoted ''int'' @ '' object has no attribute '' @ quoted ''strip'')), [])
    \<and> lambda_handler sample_env (event_with_body ''[]'')
      = (Inl (Raised AttributeError (quoted ''list'' @ '' object has no attribute '' @ quoted ''get'')), [])\<close>
proof -
  have p1: \<open>parse_body sample_env (event_with_body ''[]'') = Inr (JArr [])\<close>
    by (rule sample_parse[OF sample_array]) simp
  have p2: \<open>parse_body sample_env (event_with_body ''{"description": 5}'')
              = Inr (JObj [(''description'', JInt 5)])\<close>
    by (rule sample_parse[OF sample_number_description]) simp
  from C10_attribute_error_propagates[where env = sample_env
      and event = \<open>event_with_body ''[]''\<close> and v = "JArr []"] p1
  have a: \<open>lambda_handler sample_env (event_with_body ''[]'') = (Inl (no_attribute (JArr []) ''get''), [])\<close>
    by simp
  from C10_attribute_error_propagates[where env = sample_env
      and event = \<open>event_with_body ''{"description": 5}''\<close>
      and d = "[(''description'', JInt 5)]" and w = "JInt 5"] p2
  have b: \<open>lambda_handler sample_env (event_with_body ''{"description": 5}'')
             = (Inl (no_attribute (JInt 5) ''strip''), [])\<close>
    by simp
  from a b show ?thesis
    by (simp add: no_attribute_def)
qed

text \<open>
  C4, as stated, promises the 400 envelope for every body that is valid JSON and lacks a
  description. A body that is valid JSON and not an object has no description either, and
  there the handler returns no envelope at all: for the body \<^verbatim>\<open>[]\<close> the \<^verbatim>\<open>AttributeError\<close> of
  \<^verbatim>\<open>payload.get\<close> leaves the handler.
\<close>

theorem C4_counterexample:
  \<open>lambda_handler sample_env (event_with_body ''[]'')
     = (Inl (Raised AttributeError (quoted ''list'' @ '' object has no attribute '' @ quoted ''get'')), [])\<close>
proof -
  have \<open>parse_body sample_env (event_with_body ''[]'') = Inr (JArr [])\<close>
    by (rule sample_parse[OF sample_array]) simp
  then have \<open>from_event sample_env (event_with_body ''[]'') = Inl (no_attribute (JArr []) ''get'')\<close>
    by (intro from_event_not_object) simp_all
  then show ?thesis
    by (simp add: handler_request_error attribute_error_not_caught) (simp add: no_attribute_def)
qed

text \<open>
  C4, amended. When the body parses to a JSON object whose \<^verbatim>\<open>description\<close> is missing, or is
  a string that is empty after \<^verbatim>\<open>strip()\<close>, the handler returns status 400 with the body
  \<^verbatim>\<open>{"error": "Description is required"}\<close> and calls nothing outside the process. And
  whenever \<^verbatim>\<open>from_event\<close> returns a request, its description is not empty and is already
  stripped.
\<close>

theorem C4_description_required:
  "(parse_body env event = Inr (JObj d)
      \<and> (map_of d ''description'' = None
           \<or> (\<exists>s. map_of d ''description'' = Some (JStr s) \<and> py_strip s = [])) \<longrightarrow>
      lambda_handler env event
        = (Inr \<lparr>statusCode = 400, headers = json_headers,
                body = json_dumps env (JObj [(''error'', JStr ''Description is required'')])\<rparr>, []))
   \<and> (from_event env event = Inr request \<longrightarrow>
        description request \<noteq> [] \<and> py_strip (description request) = description request)"
proof (intro conjI impI)
  assume h: "parse_body env event = Inr (JObj d)
      \<and> (map_of d ''description'' = None
           \<or> (\<exists>s. map_of d ''description'' = Some (JStr s) \<and> py_strip s = []))"
  then have "from_event env event = Inl (Raised ValueError ''Description is required'')"
    by (auto simp: from_event_def dict_get_def py_strip_def)
  then show "lambda_handler env event
        = (Inr \<lparr>statusCode = 400, headers = json_headers,
                body = json_dumps env (JObj [(''error'', JStr ''Description is required'')])\<rparr>, [])"
    by (simp add: handler_request_error caught_def isinstance_def error_response_def)
next
  assume ok: "from_event env event = Inr request"
  then obtain s where d: "description request = py_strip s" and ne: "py_strip s \<noteq> []"
    by (auto simp: from_event_def Let_def split: sum.splits json.splits if_splits)
  from ne d show "description request \<noteq> []" by simp
  from d show "py_strip (description request) = description request"
    by (simp add: py_strip_idem)
qed

lemma sample_blank_description:
  \<open>map_of sample_documents ''{"description": "   "}'' = Some (JObj [(''description'', JStr ''   '')])\<close>
  by (simp add: sample_documents_def)

lemma sample_empty_object: \<open>map_of sample_documents ''{}'' = Some (JObj [])\<close>
  by (simp add: sample_documents_def)

lemma sample_plain:
  \<open>map_of sample_documents ''{"description": "Engine knocks at idle"}''
     = Some (JObj [(''description'', JStr ''Engine knocks at idle'')])\<close>
  by (simp add: sample_documents_def)

theorem C4_description_required_witness:
  \<open>lambda_handler sample_env (event_with_body ''{"description": "   "}'')
     = (Inr \<lparr>statusCode = 400, headers = json_headers,
             body = ''{"error": "Description is required"}''\<rparr>, [])
   \<and> lambda_handler sample_env (event_with_body ''{}'')
     = (Inr \<lparr>statusCode = 400, headers = json_headers,
             body = ''{"error": "Description is required"}''\<rparr>, [])
   \<and> from_event sample_env (event_with_body ''{"description": "Engine knocks at idle"}'')
     = Inr \<lparr>description = ''Engine knocks at idle'', media_base64 = JNull, media_filename = JNull\<rparr>
   \<and> py_strip ''Engine knocks at idle'' = ''Engine knocks at idle''\<close>
proof -
  have dumps: \<open>json_dumps sample_env (JObj [(''error'', JStr ''Description is required'')])
                 = ''{"error": "Description is required"}''\<close>
    by (simp add: sample_env_def dumps_str_def escape_char_def)
  have p1: \<open>parse_body sample_env (event_with_body ''{"description": "   "}'')
              = Inr (JObj [(''description'', JStr ''   '')])\<close>
    by (rule sample_parse[OF sample_blank_description]) simp
  have p2: \<open>parse_body sample_env (event_with_body ''{}'') = Inr (JObj [])\<close>
    by (rule sample_parse[OF sample_empty_object]) simp
  have p3: \<open>parse_body sample_env (event_with_body ''{"description": "Engine knocks at idle"}'')
              = Inr (JObj [(''description'', JStr ''Engine knocks at idle'')])\<close>
    by (rule sample_parse[OF sample_plain]) simp
  have blank: "py_strip ''   '' = []"
    by (simp add: py_strip_def is_space_def)
  have f3: \<open>from_event sample_env (event_with_body ''{"description": "Engine knocks at idle"}'')
     = Inr \<lparr>description = ''Engine knocks at idle'', media_base64 = JNull, media_filename = JNull\<rparr>\<close>
    by (simp add: from_event_def p3 dict_get_def py_strip_def is_space_def)
  from C4_description_required[where env = sample_env
      and event = \<open>event_with_body ''{"description": "   "}''\<close>
      and d = "[(''description'', JStr ''   '')]"] p1 blank dumps
  have a: \<open>lambda_handler sample_env (event_with_body ''{"description": "   "}'')
     = (Inr \<lparr>statusCode = 400, headers = json_headers,
             body = ''{"error": "Description is required"}''\<rparr>, [])\<close>
    by simp
  from C4_description_required[where env = sample_env
      and event = \<open>event_with_body ''{}''\<close> and d = "[]"] p2 dumps
  have b: \<open>lambda_handler sample_env (event_with_body ''{}'')
     = (Inr \<lparr>statusCode = 400, headers = json_headers,
             body = ''{"error": "Description is required"}''\<rparr>, [])\<close>
    by simp
  from C4_description_required[where env = sample_env
      and event = \<open>event_with_body ''{"description": "Engine knocks at idle"}''\<close>
      and request = "\<lparr>description = ''Engine knocks at idle'', media_base64 = JNull,
                      media_filename = JNull\<rparr>"] f3
  have c: "py_strip ''Engine knocks at idle'' = ''Engine knocks at idle''"
    by simp
  from a b c f3 show ?thesis by simp
qed

section \<open>Media without a bucket (C5)\<close>

text \<open>
  C5. When the request is valid, both media fields are truthy and \<^verbatim>\<open>S3_BUCKET\<close> is unset or
  empty, the handler returns status 400 with the body
  \<^verbatim>\<open>{"error": "S3_BUCKET environment variable is not set"}\<close>, and it has called nothing
  outside the process: no S3 client, no store write, no model invocation.
\<close>

theorem C5_missing_bucket:
  assumes "from_event env event = Inr request"
    and "media_present request"
    and "\<not> env_truthy (S3_BUCKET env)"
  shows "lambda_handler env event
           = (Inr \<lparr>statusCode = 400, headers = json_headers,
                   body = json_dumps env
                     (JObj [(''error'', JStr ''S3_BUCKET environment variable is not set'')])\<rparr>,
              [])"
proof -
  have "upload_step env request
          = (Inl (Raised RuntimeError ''S3_BUCKET environment variable is not set''), [])"
    using assms(2,3)
    by (simp add: upload_step_def env_truthy_def pure_io_def split: option.splits)
  then have "handler_body env event
          = (Inl (Raised RuntimeError ''S3_BUCKET environment variable is not set''), [])"
    using assms(1) by (simp add: handler_body_def bind_io_def pure_io_def)
  then show ?thesis
    by (simp add: lambda_handler_def caught_def isinstance_def error_response_def)
qed

lemma sample_media:
  \<open>map_of sample_documents
      ''{"description": "Engine knocks at idle", "media": "aGVsbG8=", "filename": "a/b/photo.png"}''
     = Some (JObj [(''description'', JStr ''Engine knocks at idle''),
                   (''media'', JStr ''aGVsbG8=''),
                   (''filename'', JStr ''a/b/photo.png'')])\<close>
  by (simp add: sample_documents_def)

lemma sample_media_request:
  assumes "json_loads env = sample_loads"
  shows \<open>from_event env (event_with_body
      ''{"description": "Engine knocks at idle", "media": "aGVsbG8=", "filename": "a/b/photo.png"}'')
     = Inr \<lparr>description = ''Engine knocks at idle'', media_base64 = JStr ''aGVsbG8='',
            media_filename = JStr ''a/b/photo.png''\<rparr>\<close>
  using assms sample_media
  by (simp add: from_event_def parse_body_def event_with_body_def dict_get_def sample_loads_def
      Let_def py_strip_def is_space_def)

theorem C5_missing_bucket_witness:
  \<open>lambda_handler (sample_env\<lparr>S3_BUCKET := None\<rparr>) (event_with_body
      ''{"description": "Engine knocks at idle", "media": "aGVsbG8=", "filename": "a/b/photo.png"}'')
     = (Inr \<lparr>statusCode = 400, headers = json_headers,
             body = ''{"error": "S3_BUCKET environment variable is not set"}''\<rparr>, [])\<close>
proof -
  let ?env = "sample_env\<lparr>S3_BUCKET := None\<rparr>"
  have r: \<open>from_event ?env (event_with_body
      ''{"description": "Engine knocks at idle", "media": "aGVsbG8=", "filename": "a/b/photo.png"}'')
     = Inr \<lparr>description = ''Engine knocks at idle'', media_base64 = JStr ''aGVsbG8='',
            media_filename = JStr ''a/b/photo.png''\<rparr>\<close>
    by (rule sample_media_request) (simp add: sample_env_def)
  have m: "media_present \<lparr>description = ''Engine knocks at idle'', media_base64 = JStr ''aGVsbG8='',
            media_filename = JStr ''a/b/photo.png''\<rparr>"
    by (simp add: media_present_def)
  have b: "\<not> env_truthy (S3_BUCKET ?env)"
    by (simp add: env_truthy_def)
  have dumps: \<open>json_dumps ?env (JObj [(''error'', JStr ''S3_BUCKET environment variable is not set'')])
                 = ''{"error": "S3_BUCKET environment variable is not set"}''\<close>
    by (simp add: sample_env_def dumps_str_def escape_char_def)
  from C5_missing_bucket[OF r m b] dumps show ?thesis
    by simp
qed

section \<open>Reading the model's reply (C3)\<close>

text \<open>
  C3. When the reply parses to the JSON object with summary \<open>S\<close>, potential causes \<open>[A]\<close>, no
  safety checks and recommended actions \<open>[B]\<close>, the response holds exactly these values and
  serialises as that object again. When \<^verbatim>\<open>json.loads\<close> rejects the reply with
  \<^verbatim>\<open>JSONDecodeError\<close>, the response has the reply itself as summary and three empty lists.
\<close>

theorem C3_normalize_round_trip:
  "(json_loads env raw
      = Inr (JObj [(''summary'', JStr S), (''potential_causes'', JArr [JStr A]),
                   (''safety_checks'', JArr []), (''recommended_actions'', JArr [JStr B])]) \<longrightarrow>
      normalize_response env raw
        = Inr \<lparr>summary = JStr S, potential_causes = [JStr A], safety_checks = [],
               recommended_actions = [JStr B]\<rparr>
      \<and> map_sum id as_dict (normalize_response env raw)
        = Inr (JObj [(''summary'', JStr S), (''potential_causes'', JArr [JStr A]),
                     (''safety_checks'', JArr []), (''recommended_actions'', JArr [JStr B])]))
   \<and> (json_loads env T = Inl e \<and> isinstance e JSONDecodeError \<longrightarrow>
        normalize_response env T
          = Inr \<lparr>summary = JStr T, potential_causes = [], safety_checks = [],
                 recommended_actions = []\<rparr>)"
  by (simp add: normalize_response_def dict_get_def as_dict_def)

theorem C3_normalize_round_trip_witness:
  \<open>normalize_response sample_env
      ''{"summary":"S","potential_causes":["A"],"safety_checks":[],"recommended_actions":["B"]}''
     = Inr \<lparr>summary = JStr ''S'', potential_causes = [JStr ''A''], safety_checks = [],
            recommended_actions = [JStr ''B'']\<rparr>
   \<and> normalize_response sample_env ''Check the battery terminals.''
     = Inr \<lparr>summary = JStr ''Check the battery terminals.'', potential_causes = [],
            safety_checks = [], recommended_actions = []\<rparr>\<close>
proof -
  have l1: \<open>json_loads sample_env
      ''{"summary":"S","potential_causes":["A"],"safety_checks":[],"recommended_actions":["B"]}''
     = Inr (JObj [(''summary'', JStr ''S''), (''potential_causes'', JArr [JStr ''A'']),
                   (''safety_checks'', JArr []), (''recommended_actions'', JArr [JStr ''B''])])\<close>
    by (simp add: sample_env_def sample_loads_def sample_documents_def)
  have l2: \<open>json_loads sample_env ''Check the battery terminals.''
     = Inl (Raised JSONDecodeError ''Expecting value: line 1 column 1 (char 0)'')\<close>
    by (simp add: sample_env_def sample_loads_def sample_documents_def)
  have i: "isinstance (Raised JSONDecodeError ''Expecting value: line 1 column 1 (char 0)'')
             JSONDecodeError"
    by (simp add: isinstance_def)
  from C3_normalize_round_trip[where env = sample_env
      and raw = \<open>''{"summary":"S","potential_causes":["A"],"safety_checks":[],"recommended_actions":["B"]}''\<close>
      and S = "''S''" and A = "''A''" and B = "''B''"
      and T = "''Check the battery terminals.''"
      and e = "Raised JSONDecodeError ''Expecting value: line 1 column 1 (char 0)''"] l1 l2 i
  show ?thesis by simp
qed

section \<open>When the upload happens (C9)\<close>

lemma invoke_openai_effects:
  "set (snd (invoke_openai env messages))
     \<subseteq> {ResponsesCreate (OPENAI_MODEL env) messages 800, ChatCreate (OPENAI_MODEL env) messages 800}"
  by (auto simp: invoke_openai_def model_text_def bind_io_def pure_io_def call_def
      split: sum.splits prod.splits if_splits)

lemma handler_effects: "snd (lambda_handler env event) = snd (handler_body env event)"
  by (simp add: lambda_handler_def split: prod.splits sum.splits)

lemma bind_io_effects_fst: "\<exists>rest. snd (bind_io m f) = snd m @ rest"
  by (cases m; cases "fst m") (auto simp: bind_io_def split: prod.splits)

lemma bind_io_effects_after:
  "set (snd (bind_io m (\<lambda>x. pure_io (g x)))) = set (snd m)"
  by (cases m; cases "fst m") (auto simp: bind_io_def pure_io_def split: prod.splits)

lemma upload_step_skipped: "upload_step env request = (Inr None, []) \<longleftrightarrow> \<not> media_present request"
proof
  assume skipped: "upload_step env request = (Inr None, [])"
  show "\<not> media_present request"
  proof
    assume present: "media_present request"
    show False
    proof (cases "env_truthy (S3_BUCKET env)")
      case False
      with present skipped show False
        by (auto simp: upload_step_def env_truthy_def pure_io_def split: option.splits if_splits)
    next
      case True
      then obtain b where b: "S3_BUCKET env = Some b" "b \<noteq> []"
        by (auto simp: env_truthy_def split: option.splits)
      with present skipped have
        "bind_io (upload_media_from_base64 env b (media_base64 request) (media_filename request))
           (\<lambda>obj. pure_io (Inr (Some obj))) = (Inr None, [])"
        by (simp add: upload_step_def)
      from bind_io_success[OF this] show False
        by (auto simp: pure_io_def)
    qed
  qed
next
  assume "\<not> media_present request"
  then show "upload_step env request = (Inr None, [])"
    by (simp add: upload_step_def pure_io_def)
qed

text \<open>
  C9. The upload step of the handler (lines 184 to 194: the bucket check, then the upload)
  is skipped, leaving no stored media, no exception and no effect, exactly when the media
  payload and the filename are not both truthy. For a valid request without both of them
  the handler's only calls are model invocations on the conversation composed with no stored
  media: there is no store write. For a valid request with both of them and a configured
  bucket, the handler begins with the calls of \<^verbatim>\<open>upload_media_from_base64\<close>.
\<close>

theorem C9_upload_iff_media:
  "(upload_step env request = (Inr None, []) \<longleftrightarrow> \<not> media_present request)
   \<and> (from_event env event = Inr request \<and> \<not> media_present request \<longrightarrow>
        set (snd (lambda_handler env event))
          \<subseteq> {ResponsesCreate (OPENAI_MODEL env) (build_messages request None) 800,
              ChatCreate (OPENAI_MODEL env) (build_messages request None) 800})
   \<and> (from_event env event = Inr request \<and> media_present request
        \<and> S3_BUCKET env = Some b \<and> b \<noteq> [] \<longrightarrow>
        (\<exists>rest. snd (lambda_handler env event)
           = snd (upload_media_from_base64 env b (media_base64 request) (media_filename request))
             @ rest))"
proof (intro conjI impI)
  show "upload_step env request = (Inr None, []) \<longleftrightarrow> \<not> media_present request"
    by (rule upload_step_skipped)
next
  assume h: "from_event env event = Inr request \<and> \<not> media_present request"
  then have "handler_body env event
      = bind_io (invoke_openai env (build_messages request None))
          (\<lambda>response. pure_io (Inr \<lparr>statusCode = 200, headers = json_headers,
                                      body = json_dumps env (as_dict response)\<rparr>))"
    by (simp add: handler_body_def upload_step_def bind_io_pure_Inr)
  then have "set (snd (lambda_handler env event))
      = set (snd (invoke_openai env (build_messages request None)))"
    by (simp only: handler_effects bind_io_effects_after)
  with invoke_openai_effects[of env "build_messages request None"]
  show "set (snd (lambda_handler env event))
          \<subseteq> {ResponsesCreate (OPENAI_MODEL env) (build_messages request None) 800,
              ChatCreate (OPENAI_MODEL env) (build_messages request None) 800}"
    by simp
next
  assume h: "from_event env event = Inr request \<and> media_present request
        \<and> S3_BUCKET env = Some b \<and> b \<noteq> []"
  let ?up = "upload_media_from_base64 env b (media_base64 request) (media_filename request)"
  let ?k = "\<lambda>media_object.
     bind_io (invoke_openai env (build_messages request media_object)) (\<lambda>response.
       pure_io (Inr \<lparr>statusCode = 200, headers = json_headers,
                     body = json_dumps env (as_dict response)\<rparr>))"
  from h have hb: "handler_body env event
      = bind_io (bind_io ?up (\<lambda>obj. pure_io (Inr (Some obj)))) ?k"
    by (simp add: handler_body_def upload_step_def bind_io_pure_Inr)
  obtain r1 where r1: "snd (bind_io ?up (\<lambda>obj. pure_io (Inr (Some obj)))) = snd ?up @ r1"
    using bind_io_effects_fst by blast
  obtain r2 where r2: "snd (bind_io (bind_io ?up (\<lambda>obj. pure_io (Inr (Some obj)))) ?k)
      = snd (bind_io ?up (\<lambda>obj. pure_io (Inr (Some obj)))) @ r2"
    using bind_io_effects_fst by blast
  have "snd (lambda_handler env event) = snd ?up @ (r1 @ r2)"
    by (simp only: handler_effects hb r2 r1 append_assoc)
  then show "\<exists>rest. snd (lambda_handler env event) = snd ?up @ rest"
    by (rule exI)
qed

lemma sample_plain_request:
  assumes "json_loads env = sample_loads"
  shows \<open>from_event env (event_with_body ''{"description": "Engine knocks at idle"}'')
     = Inr \<lparr>description = ''Engine knocks at idle'', media_base64 = JNull, media_filename = JNull\<rparr>\<close>
  using assms sample_plain
  by (simp add: from_event_def parse_body_def event_with_body_def dict_get_def sample_loads_def
      Let_def py_strip_def is_space_def)

theorem C9_upload_iff_media_witness:
  \<open>upload_step sample_env
      \<lparr>description = ''Engine knocks at idle'', media_base64 = JNull, media_filename = JNull\<rparr>
     = (Inr None, [])
   \<and> set (snd (lambda_handler sample_env (event_with_body ''{"description": "Engine knocks at idle"}'')))
     \<subseteq> {ResponsesCreate ''gpt-4o-mini''
          (build_messages \<lparr>description = ''Engine knocks at idle'', media_base64 = JNull,
                           media_filename = JNull\<rparr> None) 800,
        ChatCreate ''gpt-4o-mini''
          (build_messages \<lparr>description = ''Engine knocks at idle'', media_base64 = JNull,
                           media_filename = JNull\<rparr> None) 800}
   \<and> (\<exists>rest. snd (lambda_handler sample_env (event_with_body
          ''{"description": "Engine knocks at idle", "media": "aGVsbG8=", "filename": "a/b/photo.png"}''))
        = [S3Client,
           PutObject ''mechanic-media'' ''uploads/1700000000-photo.png'' [104, 101, 108, 108, 111] ''image/png'',
           PresignedUrl ''mechanic-media'' ''uploads/1700000000-photo.png'' 3600] @ rest)\<close>
proof -
  let ?plain = "\<lparr>description = ''Engine knocks at idle'', media_base64 = JNull,
                  media_filename = JNull\<rparr>"
  let ?media = "\<lparr>description = ''Engine knocks at idle'', media_base64 = JStr ''aGVsbG8='',
                  media_filename = JStr ''a/b/photo.png''\<rparr>"
  have loads: "json_loads sample_env = sample_loads"
    by (simp add: sample_env_def)
  have model: "OPENAI_MODEL sample_env = ''gpt-4o-mini''"
    by (simp add: sample_env_def)
  have bkt: "S3_BUCKET sample_env = Some ''mechanic-media''" "''mechanic-media'' \<noteq> []"
    by (simp_all add: sample_env_def)
  have np: "\<not> media_present ?plain" and mp: "media_present ?media"
    by (simp_all add: media_present_def)
  note plain = C9_upload_iff_media[where env = sample_env and request = ?plain
      and event = \<open>event_with_body ''{"description": "Engine knocks at idle"}''\<close>]
  note media = C9_upload_iff_media[where env = sample_env and request = ?media
      and b = "''mechanic-media''"
      and event = \<open>event_with_body
        ''{"description": "Engine knocks at idle", "media": "aGVsbG8=", "filename": "a/b/photo.png"}''\<close>]
  from plain np have a: "upload_step sample_env ?plain = (Inr None, [])"
    by blast
  from plain np sample_plain_request[OF loads] model
  have b: \<open>set (snd (lambda_handler sample_env (event_with_body ''{"description": "Engine knocks at idle"}'')))
     \<subseteq> {ResponsesCreate ''gpt-4o-mini'' (build_messages ?plain None) 800,
        ChatCreate ''gpt-4o-mini'' (build_messages ?plain None) 800}\<close>
    by simp
  from media mp sample_media_request[OF loads] bkt
  have \<open>\<exists>rest. snd (lambda_handler sample_env (event_with_body
          ''{"description": "Engine knocks at idle", "media": "aGVsbG8=", "filename": "a/b/photo.png"}''))
        = snd (upload_media_from_base64 sample_env ''mechanic-media'' (media_base64 ?media)
                 (media_filename ?media)) @ rest\<close>
    by blast
  then have c: \<open>\<exists>rest. snd (lambda_handler sample_env (event_with_body
          ''{"description": "Engine knocks at idle", "media": "aGVsbG8=", "filename": "a/b/photo.png"}''))
        = [S3Client,
           PutObject ''mechanic-media'' ''uploads/1700000000-photo.png'' [104, 101, 108, 108, 111] ''image/png'',
           PresignedUrl ''mechanic-media'' ''uploads/1700000000-photo.png'' 3600] @ rest\<close>
    by (simp add: sample_upload)
  from a b c show ?thesis
    by (intro conjI)
qed

section \<open>Empty replies (C7)\<close>

lemma handler_model_text:
  assumes "from_event env event = Inr request"
    and "upload_step env request = (Inr m, t1)"
    and "model_text env (build_messages request m) = (Inr raw, t2)"
  shows "handler_body env event
     = (case finish_text env raw of
          Inl e \<Rightarrow> (Inl e, t1 @ t2)
        | Inr response \<Rightarrow>
            (Inr \<lparr>statusCode = 200, headers = json_headers,
                   body = json_dumps env (as_dict response)\<rparr>, t1 @ t2))"
  using assms
  by (simp add: handler_body_def invoke_openai_def bind_io_def pure_io_def split: sum.splits)

lemma finish_text_success:
  assumes "finish_text env raw = Inr response"
  shows "py_strip raw \<noteq> []"
    and "summary response = JStr (py_strip raw)
         \<or> (\<exists>d. json_loads env (py_strip raw) = Inr (JObj d)
                \<and> map_of d ''summary'' = Some (summary response))"
proof -
  from assms show ne: "py_strip raw \<noteq> []"
    by (auto simp: finish_text_def Let_def split: if_splits)
  with assms have n: "normalize_response env (py_strip raw) = Inr response"
    by (simp add: finish_text_def Let_def)
  show "summary response = JStr (py_strip raw)
         \<or> (\<exists>d. json_loads env (py_strip raw) = Inr (JObj d)
                \<and> map_of d ''summary'' = Some (summary response))"
  proof (cases "json_loads env (py_strip raw)")
    case (Inl e)
    with n show ?thesis
      by (auto simp: normalize_response_def split: if_splits)
  next
    case (Inr v)
    with n obtain d where d: "v = JObj d"
      by (cases v) (auto simp: normalize_response_def)
    from n Inr d have "summary response = dict_get d ''summary'' (JStr (py_strip raw))"
      by (auto simp: normalize_response_def split: sum.splits)
    with Inr d show ?thesis
      by (cases "map_of d ''summary''") (auto simp: dict_get_def)
  qed
qed

text \<open>
  C7, as stated, ends with: the handler never returns a status-200 envelope whose summary is
  empty. The check of lines 156 to 158 is on the reply's text, not on the summary: a reply
  that is the JSON object \<^verbatim>\<open>{"summary": ""}\<close> is not empty, parses, and comes back as a
  status-200 envelope with the empty summary.
\<close>

theorem C7_counterexample:
  \<open>lambda_handler (sample_env\<lparr>responses_create := (\<lambda>m msgs n. Inr (Some ''{"summary": ""}''))\<rparr>)
      (event_with_body ''{"description": "Engine knocks at idle"}'')
     = (Inr \<lparr>statusCode = 200, headers = json_headers,
             body = ''{"summary": "", "potential_causes": [], "safety_checks": [], "recommended_actions": []}''\<rparr>,
        [ResponsesCreate ''gpt-4o-mini''
           (build_messages \<lparr>description = ''Engine knocks at idle'', media_base64 = JNull,
                            media_filename = JNull\<rparr> None) 800])\<close>
proof -
  let ?env = \<open>sample_env\<lparr>responses_create := (\<lambda>m msgs n. Inr (Some ''{"summary": ""}''))\<rparr>\<close>
  let ?req = "\<lparr>description = ''Engine knocks at idle'', media_base64 = JNull,
                media_filename = JNull\<rparr>"
  have r: \<open>from_event ?env (event_with_body ''{"description": "Engine knocks at idle"}'') = Inr ?req\<close>
    by (rule sample_plain_request) (simp add: sample_env_def)
  have u: "upload_step ?env ?req = (Inr None, [])"
    by (simp add: upload_step_def media_present_def pure_io_def)
  have m: \<open>model_text ?env (build_messages ?req None)
     = (Inr ''{"summary": ""}'', [ResponsesCreate ''gpt-4o-mini'' (build_messages ?req None) 800])\<close>
    by (simp add: model_text_def sample_env_def env_truthy_def bind_io_def call_def pure_io_def)
  have f: \<open>finish_text ?env ''{"summary": ""}''
     = Inr \<lparr>summary = JStr [], potential_causes = [], safety_checks = [], recommended_actions = []\<rparr>\<close>
    by (simp add: finish_text_def normalize_response_def sample_env_def sample_loads_def
        sample_documents_def dict_get_def py_strip_def is_space_def Let_def)
  have d: \<open>json_dumps ?env (as_dict \<lparr>summary = JStr [], potential_causes = [], safety_checks = [],
                                     recommended_actions = []\<rparr>)
     = ''{"summary": "", "potential_causes": [], "safety_checks": [], "recommended_actions": []}''\<close>
    by (simp add: sample_env_def as_dict_def dumps_str_def escape_char_def)
  from handler_model_text[OF r u m] f d show ?thesis
    by (simp add: lambda_handler_def)
qed

text \<open>
  C7, amended. When the extracted text is empty after \<^verbatim>\<open>strip()\<close>, the invocation raises
  \<^verbatim>\<open>RuntimeError("OpenAI returned an empty response")\<close> and the handler returns the 400
  envelope with that message, never a 200. When the invocation succeeds, the text was not
  empty, and the summary is that text, unless the text parsed to a JSON object with a
  \<^verbatim>\<open>summary\<close> entry of its own, which is then returned as it is.
\<close>

theorem C7_empty_model_output:
  "(py_strip raw = [] \<longrightarrow>
      finish_text env raw = Inl (Raised RuntimeError ''OpenAI returned an empty response''))
   \<and> (from_event env event = Inr request \<and> upload_step env request = (Inr m, ta)
        \<and> model_text env (build_messages request m) = (Inr raw, tb) \<and> py_strip raw = [] \<longrightarrow>
        lambda_handler env event
          = (Inr \<lparr>statusCode = 400, headers = json_headers,
                  body = json_dumps env
                    (JObj [(''error'', JStr ''OpenAI returned an empty response'')])\<rparr>,
             ta @ tb))
   \<and> (finish_text env raw = Inr response \<longrightarrow>
        py_strip raw \<noteq> []
        \<and> (summary response = JStr (py_strip raw)
            \<or> (\<exists>d. json_loads env (py_strip raw) = Inr (JObj d)
                   \<and> map_of d ''summary'' = Some (summary response))))"
proof (intro conjI impI)
  assume "py_strip raw = []"
  then show "finish_text env raw = Inl (Raised RuntimeError ''OpenAI returned an empty response'')"
    by (simp add: finish_text_def)
next
  assume h: "from_event env event = Inr request \<and> upload_step env request = (Inr m, ta)
        \<and> model_text env (build_messages request m) = (Inr raw, tb) \<and> py_strip raw = []"
  then have f: "finish_text env raw = Inl (Raised RuntimeError ''OpenAI returned an empty response'')"
    by (simp add: finish_text_def)
  from h have "handler_body env event
      = (Inl (Raised RuntimeError ''OpenAI returned an empty response''), ta @ tb)"
    by (simp add: handler_model_text[of env event request m ta raw tb] f)
  then show "lambda_handler env event
          = (Inr \<lparr>statusCode = 400, headers = json_headers,
                  body = json_dumps env
                    (JObj [(''error'', JStr ''OpenAI returned an empty response'')])\<rparr>,
             ta @ tb)"
    by (simp add: lambda_handler_def caught_def isinstance_def error_response_def)
next
  assume "finish_text env raw = Inr response"
  then show "py_strip raw \<noteq> []"
    by (rule finish_text_success)
next
  assume "finish_text env raw = Inr response"
  then show "summary response = JStr (py_strip raw)
            \<or> (\<exists>d. json_loads env (py_strip raw) = Inr (JObj d)
                   \<and> map_of d ''summary'' = Some (summary response))"
    by (rule finish_text_success)
qed

theorem C7_empty_model_output_witness:
  \<open>lambda_handler (sample_env\<lparr>responses_create := (\<lambda>m msgs n. Inr (Some ''   ''))\<rparr>)
      (event_with_body ''{"description": "Engine knocks at idle"}'')
     = (Inr \<lparr>statusCode = 400, headers = json_headers,
             body = ''{"error": "OpenAI returned an empty response"}''\<rparr>,
        [ResponsesCreate ''gpt-4o-mini''
           (build_messages \<lparr>description = ''Engine knocks at idle'', media_base64 = JNull,
                            media_filename = JNull\<rparr> None) 800])
   \<and> finish_text sample_env ''   ''
     = Inl (Raised RuntimeError ''OpenAI returned an empty response'')
   \<and> finish_text sample_env '' Check the battery terminals. ''
     = Inr \<lparr>summary = JStr ''Check the battery terminals.'', potential_causes = [],
            safety_checks = [], recommended_actions = []\<rparr>
   \<and> py_strip '' Check the battery terminals. '' \<noteq> []\<close>
proof -
  let ?env = \<open>sample_env\<lparr>responses_create := (\<lambda>m msgs n. Inr (Some ''   ''))\<rparr>\<close>
  let ?req = "\<lparr>description = ''Engine knocks at idle'', media_base64 = JNull,
                media_filename = JNull\<rparr>"
  let ?resp = "\<lparr>summary = JStr ''Check the battery terminals.'', potential_causes = [],
            safety_checks = [], recommended_actions = []\<rparr>"
  have blank: "py_strip ''   '' = []"
    by (simp add: py_strip_def is_space_def)
  have r: \<open>from_event ?env (event_with_body ''{"description": "Engine knocks at idle"}'') = Inr ?req\<close>
    by (rule sample_plain_request) (simp add: sample_env_def)
  have u: "upload_step ?env ?req = (Inr None, [])"
    by (simp add: upload_step_def media_present_def pure_io_def)
  have m: \<open>model_text ?env (build_messages ?req None)
     = (Inr ''   '', [ResponsesCreate ''gpt-4o-mini'' (build_messages ?req None) 800])\<close>
    by (simp add: model_text_def sample_env_def env_truthy_def bind_io_def call_def pure_io_def)
  have d: \<open>json_dumps ?env (JObj [(''error'', JStr ''OpenAI returned an empty response'')])
     = ''{"error": "OpenAI returned an empty response"}''\<close>
    by (simp add: sample_env_def dumps_str_def escape_char_def)
  have f: \<open>finish_text sample_env '' Check the battery terminals. '' = Inr ?resp\<close>
    by (simp add: finish_text_def normalize_response_def sample_env_def sample_loads_def
        sample_documents_def isinstance_def py_strip_def is_space_def Let_def)
  from C7_empty_model_output[where env = ?env and raw = "''   ''" and request = ?req
      and m = None and ta = "[]"
      and tb = "[ResponsesCreate ''gpt-4o-mini'' (build_messages ?req None) 800]"
      and event = \<open>event_with_body ''{"description": "Engine knocks at idle"}''\<close>] blank r u m d
  have a: \<open>lambda_handler ?env (event_with_body ''{"description": "Engine knocks at idle"}'')
     = (Inr \<lparr>statusCode = 400, headers = json_headers,
             body = ''{"error": "OpenAI returned an empty response"}''\<rparr>,
        [ResponsesCreate ''gpt-4o-mini'' (build_messages ?req None) 800])\<close>
    by simp
  from C7_empty_model_output[where env = sample_env and raw = "''   ''"] blank
  have b: "finish_text sample_env ''   ''
     = Inl (Raised RuntimeError ''OpenAI returned an empty response'')"
    by blast
  from C7_empty_model_output[where env = sample_env
      and raw = "'' Check the battery terminals. ''" and response = ?resp] f
  have c: "py_strip '' Check the battery terminals. '' \<noteq> []"
    by blast
  from a b c f show ?thesis
    by (intro conjI)
qed

section \<open>A failing store write (C1)\<close>

text \<open>
  What the handler does when \<^verbatim>\<open>put_object\<close> raises: the exception passes through
  \<^verbatim>\<open>upload_media_from_base64\<close>, whose only \<^verbatim>\<open>try\<close> is around the base64 decoding, and
  reaches the \<^verbatim>\<open>except\<close> clause of the handler.
\<close>

lemma store_write_failure:
  assumes "from_event env event = Inr request"
    and "media_present request"
    and "S3_BUCKET env = Some b" and "b \<noteq> []"
    and "get_s3_client env = (Inr (), [S3Client])"
    and "decode_payload env (media_base64 request) = Inr data"
    and "media_filename request = JStr f"
    and "guess_content_type env (JStr f) = Inr ctype"
    and "put_object env b (''uploads/'' @ str_int (unix_time env) @ ''-'' @ basename f) data ctype
           = Inl e"
  shows "lambda_handler env event
     = (if caught e then Inr (error_response env e) else Inl e,
        [S3Client,
         PutObject b (''uploads/'' @ str_int (unix_time env) @ ''-'' @ basename f) data ctype])"
proof -
  have "upload_media_from_base64 env b (media_base64 request) (media_filename request)
     = (Inl e, [S3Client,
         PutObject b (''uploads/'' @ str_int (unix_time env) @ ''-'' @ basename f) data ctype])"
    using assms(5-9)
    by (simp add: upload_media_from_base64_def bind_io_def pure_io_def call_def Let_def)
  then have "upload_step env request
     = (Inl e, [S3Client,
         PutObject b (''uploads/'' @ str_int (unix_time env) @ ''-'' @ basename f) data ctype])"
    using assms(2-4) by (simp add: upload_step_def bind_io_def)
  then have "handler_body env event
     = (Inl e, [S3Client,
         PutObject b (''uploads/'' @ str_int (unix_time env) @ ''-'' @ basename f) data ctype])"
    using assms(1) by (simp add: handler_body_def bind_io_def pure_io_def)
  then show ?thesis
    by (simp add: lambda_handler_def)
qed

text \<open>
  C1. The claim is that every storage-layer error of the upload is caught and rendered as
  the 400 envelope. The \<^verbatim>\<open>except\<close> clause names \<^verbatim>\<open>botocore.exceptions.BotoCoreError\<close>; the
  error responses of S3 itself (AccessDenied, NoSuchBucket and the like) are raised by
  \<^verbatim>\<open>put_object\<close> as \<^verbatim>\<open>botocore.exceptions.ClientError\<close>, which is not a \<^verbatim>\<open>BotoCoreError\<close>.
  With the store answering AccessDenied, the exception leaves the handler.
\<close>

theorem C1_client_error_propagates:
  \<open>lambda_handler
      (sample_env\<lparr>put_object := (\<lambda>b k d c. Inl (Raised ClientError
         ''An error occurred (AccessDenied) when calling the PutObject operation: Access Denied''))\<rparr>)
      (event_with_body
         ''{"description": "Engine knocks at idle", "media": "aGVsbG8=", "filename": "a/b/photo.png"}'')
     = (Inl (Raised ClientError
          ''An error occurred (AccessDenied) when calling the PutObject operation: Access Denied''),
        [S3Client,
         PutObject ''mechanic-media'' ''uploads/1700000000-photo.png'' [104, 101, 108, 108, 111]
           ''image/png''])\<close>
proof -
  let ?e = "Raised ClientError
         ''An error occurred (AccessDenied) when calling the PutObject operation: Access Denied''"
  let ?env = "sample_env\<lparr>put_object := (\<lambda>b k d c. Inl ?e)\<rparr>"
  let ?req = "\<lparr>description = ''Engine knocks at idle'', media_base64 = JStr ''aGVsbG8='',
                media_filename = JStr ''a/b/photo.png''\<rparr>"
  have r: \<open>from_event ?env (event_with_body
      ''{"description": "Engine knocks at idle", "media": "aGVsbG8=", "filename": "a/b/photo.png"}'')
     = Inr ?req\<close>
    by (rule sample_media_request) (simp add: sample_env_def)
  have k: "''uploads/'' @ str_int (unix_time ?env) @ ''-'' @ basename ''a/b/photo.png''
             = ''uploads/1700000000-photo.png''"
    by (simp add: sample_env_def sample_time_digits basename_def)
  have \<open>lambda_handler ?env (event_with_body
      ''{"description": "Engine knocks at idle", "media": "aGVsbG8=", "filename": "a/b/photo.png"}'')
     = (if caught ?e then Inr (error_response ?env ?e) else Inl ?e,
        [S3Client,
         PutObject ''mechanic-media''
           (''uploads/'' @ str_int (unix_time ?env) @ ''-'' @ basename ''a/b/photo.png'')
           [104, 101, 108, 108, 111] ''image/png''])\<close>
    by (rule store_write_failure[OF r])
      (simp_all add: media_present_def sample_env_def get_s3_client_def call_def
        decode_payload_def sample_b64decode_def guess_content_type_def sample_guess_type_def)
  then show ?thesis
    by (simp only: k) (simp add: caught_def isinstance_def)
qed

text \<open>
  The errors that botocore raises on its own side of the connection are caught, as the
  clause intends: they derive from \<^verbatim>\<open>BotoCoreError\<close>.
\<close>

lemma boto_core_errors_caught:
  "caught (Raised BotoCoreError msg)" "caught (Raised NoCredentialsError msg)"
  "caught (Raised EndpointConnectionError msg)" "\<not> caught (Raised ClientError msg)"
  by (simp_all add: caught_def isinstance_def)

lemma endpoint_error_envelope:
  \<open>lambda_handler
      (sample_env\<lparr>put_object := (\<lambda>b k d c. Inl (Raised EndpointConnectionError
         ''Could not connect to the endpoint URL''))\<rparr>)
      (event_with_body
         ''{"description": "Engine knocks at idle", "media": "aGVsbG8=", "filename": "a/b/photo.png"}'')
     = (Inr \<lparr>statusCode = 400, headers = json_headers,
             body = ''{"error": "Could not connect to the endpoint URL"}''\<rparr>,
        [S3Client,
         PutObject ''mechanic-media'' ''uploads/1700000000-photo.png'' [104, 101, 108, 108, 111]
           ''image/png''])\<close>
proof -
  let ?e = "Raised EndpointConnectionError ''Could not connect to the endpoint URL''"
  let ?env = "sample_env\<lparr>put_object := (\<lambda>b k d c. Inl ?e)\<rparr>"
  let ?req = "\<lparr>description = ''Engine knocks at idle'', media_base64 = JStr ''aGVsbG8='',
                media_filename = JStr ''a/b/photo.png''\<rparr>"
  have r: \<open>from_event ?env (event_with_body
      ''{"description": "Engine knocks at idle", "media": "aGVsbG8=", "filename": "a/b/photo.png"}'')
     = Inr ?req\<close>
    by (rule sample_media_request) (simp add: sample_env_def)
  have k: "''uploads/'' @ str_int (unix_time ?env) @ ''-'' @ basename ''a/b/photo.png''
             = ''uploads/1700000000-photo.png''"
    by (simp add: sample_env_def sample_time_digits basename_def)
  have d: \<open>error_response ?env ?e
     = \<lparr>statusCode = 400, headers = json_headers,
        body = ''{"error": "Could not connect to the endpoint URL"}''\<rparr>\<close>
    by (simp add: error_response_def sample_env_def dumps_str_def escape_char_def)
  have \<open>lambda_handler ?env (event_with_body
      ''{"description": "Engine knocks at idle", "media": "aGVsbG8=", "filename": "a/b/photo.png"}'')
     = (if caught ?e then Inr (error_response ?env ?e) else Inl ?e,
        [S3Client,
         PutObject ''mechanic-media''
           (''uploads/'' @ str_int (unix_time ?env) @ ''-'' @ basename ''a/b/photo.png'')
           [104, 101, 108, 108, 111] ''image/png''])\<close>
    by (rule store_write_failure[OF r])
      (simp_all add: media_present_def sample_env_def get_s3_client_def call_def
        decode_payload_def sample_b64decode_def guess_content_type_def sample_guess_type_def)
  then show ?thesis
    by (simp only: k d) (simp add: caught_def isinstance_def)
qed

section \<open>The text of a chat completion (C8)\<close>

lemma join_from_strings:
  "\<forall>v \<in> set vs. \<exists>s. v = JStr s \<Longrightarrow>
     join_from i vs = Inr (concat (map (\<lambda>v. case v of JStr s \<Rightarrow> s | _ \<Rightarrow> []) vs))"
proof (induction vs arbitrary: i)
  case Nil
  show ?case by simp
next
  case (Cons v vs)
  then obtain s where "v = JStr s" by auto
  with Cons show ?case by simp
qed

lemma join_from_not_string:
  "\<exists>v \<in> set vs. \<forall>s. v \<noteq> JStr s \<Longrightarrow> \<exists>msg. join_from i vs = Inl (Raised TypeError msg)"
proof (induction vs arbitrary: i)
  case Nil
  then show ?case by simp
next
  case (Cons v vs)
  show ?case
  proof (cases v)
    case (JStr s)
    with Cons.prems have "\<exists>v \<in> set vs. \<forall>s. v \<noteq> JStr s" by auto
    from Cons.IH[OF this, of "Suc i"] JStr show ?thesis by auto
  qed simp_all
qed

lemma part_texts_dicts:
  "part_texts parts
     = map (\<lambda>p. dict_get (part_fields p) ''text'' (JStr [])) (filter is_dict parts)"
  by (induction parts rule: part_texts.induct) simp_all

lemma chat_text_dicts:
  assumes "\<forall>p \<in> set parts. is_dict p \<longrightarrow> (\<exists>s. dict_get (part_fields p) ''text'' (JStr []) = JStr s)"
  shows "chat_text (ContentList parts # rest) = Inr (concat (map segment_text (filter is_dict parts)))"
proof -
  have "\<forall>v \<in> set (part_texts parts). \<exists>s. v = JStr s"
    using assms by (auto simp: part_texts_dicts)
  moreover have "(\<lambda>p. case dict_get (part_fields p) ''text'' (JStr []) of JStr s \<Rightarrow> s | _ \<Rightarrow> [])
      = segment_text"
    by (rule ext) (simp add: segment_text_def)
  ultimately show ?thesis
    using join_from_strings[of "part_texts parts" 0]
    by (simp add: chat_text_def py_join_def part_texts_dicts comp_def)
qed

lemma dict_concat_text_typed:
  assumes "\<forall>p \<in> set parts. text_typed p \<longrightarrow> is_dict p"
    and "\<forall>p \<in> set parts. is_dict p \<and> \<not> text_typed p \<longrightarrow> map_of (part_fields p) ''text'' = None"
  shows "concat (map segment_text (filter is_dict parts)) = text_typed_concat parts"
  using assms
proof (induction parts)
  case Nil
  show ?case by (simp add: text_typed_concat_def)
next
  case (Cons p ps)
  then have ih: "concat (map segment_text (filter is_dict ps)) = text_typed_concat ps"
    by simp
  show ?case
  proof (cases "text_typed p")
    case True
    with Cons.prems(1) have "is_dict p" by simp
    with True ih show ?thesis by (simp add: text_typed_concat_def)
  next
    case False
    show ?thesis
    proof (cases "is_dict p")
      case True
      with False Cons.prems(2) have "map_of (part_fields p) ''text'' = None" by simp
      then have "segment_text p = []" by (simp add: segment_text_def dict_get_def)
      with True False ih show ?thesis by (simp add: text_typed_concat_def)
    next
      case no: False
      with False ih show ?thesis by (simp add: text_typed_concat_def)
    qed
  qed
qed

text \<open>
  C8, as stated, takes the text of the text-typed segments only. The code never looks at a
  segment's type: it takes the \<^verbatim>\<open>"text"\<close> entry of every segment that is a \<^verbatim>\<open>dict\<close>. A
  \<^verbatim>\<open>dict\<close> segment of another type that carries a \<^verbatim>\<open>"text"\<close> entry contributes it.
\<close>

theorem C8_counterexample:
  "chat_text [ContentList
       [DictPart [(''type'', JStr ''text''), (''text'', JStr ''Worn brake pads.'')],
        DictPart [(''type'', JStr ''refusal''), (''text'', JStr '' I cannot say more.'')]]]
     = Inr ''Worn brake pads. I cannot say more.''
   \<and> text_typed_concat
       [DictPart [(''type'', JStr ''text''), (''text'', JStr ''Worn brake pads.'')],
        DictPart [(''type'', JStr ''refusal''), (''text'', JStr '' I cannot say more.'')]]
     = ''Worn brake pads.''"
  by (simp add: chat_text_def py_join_def dict_get_def text_typed_concat_def text_typed_def
      segment_text_def)

text \<open>
  C8, amended. When the message content is a list of segments, the extracted text is the
  concatenation, in order, of the \<^verbatim>\<open>"text"\<close> entry (empty when absent) of every segment that
  is a \<^verbatim>\<open>dict\<close>, whatever its type; segments that are not \<^verbatim>\<open>dict\<close>s contribute nothing, and
  an entry that is not a string makes \<^verbatim>\<open>join\<close> raise \<^verbatim>\<open>TypeError\<close>. This is the text of the
  text-typed segments whenever every text-typed segment is a \<^verbatim>\<open>dict\<close> and no other \<^verbatim>\<open>dict\<close>
  segment has a \<^verbatim>\<open>"text"\<close> entry.
\<close>

theorem C8_chat_text_segments:
  "((\<forall>p \<in> set parts. is_dict p \<longrightarrow> (\<exists>s. dict_get (part_fields p) ''text'' (JStr []) = JStr s)) \<longrightarrow>
      chat_text (ContentList parts # rest)
        = Inr (concat (map segment_text (filter is_dict parts))))
   \<and> ((\<forall>p \<in> set parts. is_dict p \<longrightarrow> (\<exists>s. dict_get (part_fields p) ''text'' (JStr []) = JStr s))
       \<and> (\<forall>p \<in> set parts. text_typed p \<longrightarrow> is_dict p)
       \<and> (\<forall>p \<in> set parts. is_dict p \<and> \<not> text_typed p \<longrightarrow>
             map_of (part_fields p) ''text'' = None) \<longrightarrow>
      chat_text (ContentList parts # rest) = Inr (text_typed_concat parts))
   \<and> ((\<exists>p \<in> set parts. is_dict p \<and> (\<forall>s. dict_get (part_fields p) ''text'' (JStr []) \<noteq> JStr s)) \<longrightarrow>
      (\<exists>msg. chat_text (ContentList parts # rest) = Inl (Raised TypeError msg)))"
proof (intro conjI impI)
  assume "\<forall>p \<in> set parts. is_dict p \<longrightarrow> (\<exists>s. dict_get (part_fields p) ''text'' (JStr []) = JStr s)"
  then show "chat_text (ContentList parts # rest)
        = Inr (concat (map segment_text (filter is_dict parts)))"
    by (rule chat_text_dicts)
next
  assume h: "(\<forall>p \<in> set parts. is_dict p \<longrightarrow> (\<exists>s. dict_get (part_fields p) ''text'' (JStr []) = JStr s))
       \<and> (\<forall>p \<in> set parts. text_typed p \<longrightarrow> is_dict p)
       \<and> (\<forall>p \<in> set parts. is_dict p \<and> \<not> text_typed p \<longrightarrow>
             map_of (part_fields p) ''text'' = None)"
  then have "chat_text (ContentList parts # rest)
        = Inr (concat (map segment_text (filter is_dict parts)))"
    by (intro chat_text_dicts) simp
  moreover from h have "concat (map segment_text (filter is_dict parts)) = text_typed_concat parts"
    by (intro dict_concat_text_typed) simp_all
  ultimately show "chat_text (ContentList parts # rest) = Inr (text_typed_concat parts)"
    by simp
next
  assume "\<exists>p \<in> set parts. is_dict p \<and> (\<forall>s. dict_get (part_fields p) ''text'' (JStr []) \<noteq> JStr s)"
  then have "\<exists>v \<in> set (part_texts parts). \<forall>s. v \<noteq> JStr s"
    by (auto simp: part_texts_dicts)
  from join_from_not_string[OF this, of 0]
  show "\<exists>msg. chat_text (ContentList parts # rest) = Inl (Raised TypeError msg)"
    by (simp add: chat_text_def py_join_def)
qed

theorem C8_chat_text_segments_witness:
  "chat_text [ContentList
       [DictPart [(''type'', JStr ''text''), (''text'', JStr ''Worn brake pads.'')],
        ObjectPart [(''type'', JStr ''image'')],
        DictPart [(''type'', JStr ''image_url''), (''image_url'', JStr ''https://example.com/brakes.png'')]]]
     = Inr ''Worn brake pads.''
   \<and> text_typed_concat
       [DictPart [(''type'', JStr ''text''), (''text'', JStr ''Worn brake pads.'')],
        ObjectPart [(''type'', JStr ''image'')],
        DictPart [(''type'', JStr ''image_url''), (''image_url'', JStr ''https://example.com/brakes.png'')]]
     = ''Worn brake pads.''
   \<and> (\<exists>msg. chat_text [ContentList [DictPart [(''type'', JStr ''text''), (''text'', JInt 5)]]]
          = Inl (Raised TypeError msg))"
proof -
  let ?parts = "[DictPart [(''type'', JStr ''text''), (''text'', JStr ''Worn brake pads.'')],
        ObjectPart [(''type'', JStr ''image'')],
        DictPart [(''type'', JStr ''image_url''), (''image_url'', JStr ''https://example.com/brakes.png'')]]"
  have strings: "\<forall>p \<in> set ?parts. is_dict p \<longrightarrow>
      (\<exists>s. dict_get (part_fields p) ''text'' (JStr []) = JStr s)"
    by (simp add: dict_get_def)
  have typed: "\<forall>p \<in> set ?parts. text_typed p \<longrightarrow> is_dict p"
    by (simp add: text_typed_def dict_get_def)
  have others: "\<forall>p \<in> set ?parts. is_dict p \<and> \<not> text_typed p \<longrightarrow>
      map_of (part_fields p) ''text'' = None"
    by (simp add: text_typed_def dict_get_def)
  have concat: "text_typed_concat ?parts = ''Worn brake pads.''"
    by (simp add: text_typed_concat_def text_typed_def segment_text_def dict_get_def)
  from C8_chat_text_segments[where parts = ?parts and rest = "[]"] strings typed others
  have "chat_text [ContentList ?parts] = Inr (text_typed_concat ?parts)"
    by blast
  then have a: "chat_text [ContentList ?parts] = Inr ''Worn brake pads.''"
    by (simp only: concat)
  have "\<exists>p \<in> set [DictPart [(''type'', JStr ''text''), (''text'', JInt 5)]].
      is_dict p \<and> (\<forall>s. dict_get (part_fields p) ''text'' (JStr []) \<noteq> JStr s)"
    by (simp add: dict_get_def)
  with C8_chat_text_segments[where parts = "[DictPart [(''type'', JStr ''text''), (''text'', JInt 5)]]"
      and rest = "[]"]
  have b: "\<exists>msg. chat_text [ContentList [DictPart [(''type'', JStr ''text''), (''text'', JInt 5)]]]
          = Inl (Raised TypeError msg)"
    by blast
  from a concat b show ?thesis
    by (intro conjI)
qed

end
